theory Spec2Isabelle
  imports Complex_Main "HOL-Library.Sublist" "HOL-Library.Char_ord" "HOL-Library.List_Lexorder"
begin

section \<open>Data model\<close>

text \<open>
  A cell of a loaded sheet is absent (pandas \<open>NaN\<close>), a text, or a number. \<open>Num n\<close> stands
  for a cell holding the integer \<open>n\<close> as an integer (Python \<open>int\<close> or \<open>numpy.int64\<close>), whose
  \<open>str()\<close> is its decimal numeral; floating-point, boolean and date cells are outside the
  model. Percentages are Python floats in the source and exact reals here.
\<close>

datatype cell = NaN | Str string | Num int

type_synonym row = "(string \<times> cell) list"

record dataframe =
  columns :: "string list"
  rows :: "row list"

text \<open>\<open>row[col]\<close>: a frame holds a value for every column; a missing one is \<open>NaN\<close>.\<close>

definition row_get :: "row \<Rightarrow> string \<Rightarrow> cell" where
  "row_get r col = (case map_of r col of None \<Rightarrow> NaN | Some c \<Rightarrow> c)"

text \<open>\<open>df[col]\<close>, the column as a sequence of cells in row order.\<close>

definition df_col :: "dataframe \<Rightarrow> string \<Rightarrow> cell list" where
  "df_col df col = map (\<lambda>r. row_get r col) (rows df)"

definition notna :: "cell \<Rightarrow> bool" where
  "notna c = (c \<noteq> NaN)"

definition dropna :: "cell list \<Rightarrow> cell list" where
  "dropna cs = filter notna cs"

text \<open>\<open>Series.unique()\<close>: the distinct values in order of first appearance.\<close>

fun unique :: "'a list \<Rightarrow> 'a list" where
  "unique [] = []"
| "unique (x # xs) = x # filter (\<lambda>y. y \<noteq> x) (unique xs)"

section \<open>Python strings\<close>

definition digit_char :: "nat \<Rightarrow> char" where
  "digit_char n = ''0123456789'' ! n"

function str_nat :: "nat \<Rightarrow> string" where
  "str_nat n = (if n < 10 then [digit_char n] else str_nat (n div 10) @ [digit_char (n mod 10)])"
  by pat_completeness auto
termination
  by (relation "measure id") auto

declare str_nat.simps [simp del]

definition str_int :: "int \<Rightarrow> string" where
  "str_int i = (if i < 0 then CHR ''-'' # str_nat (nat (- i)) else str_nat (nat i))"

text \<open>\<open>str(val)\<close> of a non-null cell.\<close>

fun py_str :: "cell \<Rightarrow> string" where
  "py_str (Str s) = s"
| "py_str (Num n) = str_int n"
| "py_str NaN = ''nan''"

text \<open>\<open>s.lower()\<close> on ASCII letters; the characters of the model are bytes.\<close>

definition lower_char :: "char \<Rightarrow> char" where
  "lower_char c =
     (case map_of (zip ''ABCDEFGHIJKLMNOPQRSTUVWXYZ'' ''abcdefghijklmnopqrstuvwxyz'') c of
        Some l \<Rightarrow> l
      | None \<Rightarrow> c)"

definition lower :: "string \<Rightarrow> string" where
  "lower s = map lower_char s"

text \<open>\<open>sub in s\<close> on Python strings is \<^const>\<open>sublist\<close>: \<open>s\<close> has \<open>sub\<close> as a contiguous part.\<close>

text \<open>\<open>s.split(sep)\<close> for a one-character separator: never empty, \<open>''.split(';') == ['']\<close>.\<close>

fun split_on :: "char \<Rightarrow> string \<Rightarrow> string list" where
  "split_on sep [] = [[]]"
| "split_on sep (c # cs) =
     (if c = sep then [] # split_on sep cs
      else (case split_on sep cs of [] \<Rightarrow> [[c]] | f # fs \<Rightarrow> (c # f) # fs))"

text \<open>\<open>c.isspace()\<close> on ASCII: tab, line feed, vertical tab, form feed, carriage return,
  the four separators 28 to 31, and the space.\<close>

definition isspace :: "char \<Rightarrow> bool" where
  "isspace c = (let n = (of_char c :: nat) in (9 \<le> n \<and> n \<le> 13) \<or> (28 \<le> n \<and> n \<le> 32))"

text \<open>\<open>s.strip()\<close>.\<close>

definition strip :: "string \<Rightarrow> string" where
  "strip s = rev (dropWhile isspace (rev (dropWhile isspace s)))"

section \<open>Python dictionaries\<close>

text \<open>A \<open>dict\<close> keeps its keys in insertion order; assigning to a key that is present
  replaces the value where the key stands.\<close>

fun dict_set :: "('k \<times> 'v) list \<Rightarrow> 'k \<Rightarrow> 'v \<Rightarrow> ('k \<times> 'v) list" where
  "dict_set [] k v = [(k, v)]"
| "dict_set ((k', v') # d) k v = (if k' = k then (k, v) # d else (k', v') # dict_set d k v)"

text \<open>A dict comprehension \<open>{f(x): g(x) for x in xs}\<close> assigns the items in order.\<close>

definition dict_of_items :: "('k \<times> 'v) list \<Rightarrow> ('k \<times> 'v) list" where
  "dict_of_items kvs = fold (\<lambda>(k, v) d. dict_set d k v) kvs []"

text \<open>\<open>counts[k] = counts.get(k, 0) + 1\<close>, also written
  \<open>if k in counts: counts[k] += 1 else: counts[k] = 1\<close>.\<close>

definition count_option :: "('k \<times> nat) list \<Rightarrow> 'k \<Rightarrow> ('k \<times> nat) list" where
  "count_option counts k = dict_set counts k (case map_of counts k of None \<Rightarrow> 1 | Some n \<Rightarrow> n + 1)"

text \<open>\<open>sorted(items, key=lambda x: x[1], reverse=True)\<close>: descending in the second
  component, items of equal key in their original order.\<close>

definition sorted_desc :: "('k \<times> real) list \<Rightarrow> ('k \<times> real) list" where
  "sorted_desc items = sort_key (\<lambda>x. - snd x) items"

section \<open>pandas operations\<close>

text \<open>\<open>Series.value_counts()\<close>: the non-null values with their number of occurrences,
  most frequent first. pandas does not fix the order of values of equal count; the model
  keeps them in order of first appearance.\<close>

definition value_counts :: "cell list \<Rightarrow> (cell \<times> nat) list" where
  "value_counts col = sort_key (\<lambda>x. - int (snd x)) (fold (\<lambda>v counts. count_option counts v) (dropna col) [])"

text \<open>\<open>df[mask]\<close>: the rows whose mask entry is true, every column kept.\<close>

definition df_select :: "dataframe \<Rightarrow> bool list \<Rightarrow> dataframe" where
  "df_select d keep = d \<lparr> rows := map fst (filter snd (zip (rows d) keep)) \<rparr>"

datatype error =
    QuestionNotFound string
  | EmptyQuestionId
  | EmptyOption
  | EmptyQuery
  | NotSingleChoice string
  | NotMultipleChoice string
  | IndexError
  | AttributeError
  | ReError

text \<open>
  The first six errors are the \<open>ValueError\<close>s the source raises, told apart by their
  message: \<open>QuestionNotFound q\<close> is "Question ... not found ...", the next three are
  "... must be a non-empty string", the last two "... is not a single-choice question" and
  "... is not a multiple-choice question". \<open>IndexError\<close> is that of \<open>.iloc[0]\<close> on an empty
  selection, \<open>AttributeError\<close> that of the \<open>.str\<close> accessor on a column that holds no text,
  \<open>ReError\<close> is \<open>re.error\<close>.
\<close>

text \<open>The \<open>.str\<close> accessor is there for a column of dtype \<open>object\<close>: a loaded column with
  no row, or with a text cell. A column of numbers and nulls only has a numeric dtype.\<close>

definition is_text :: "cell \<Rightarrow> bool" where
  "is_text c = (case c of Str s \<Rightarrow> True | _ \<Rightarrow> False)"

definition has_str_accessor :: "cell list \<Rightarrow> bool" where
  "has_str_accessor col = (col = [] \<or> list_ex is_text col)"

text \<open>
  \<open>col.str.contains(pat, case=..., na=False)\<close>. pandas takes \<open>pat\<close> as a regular
  expression: it compiles it once with \<open>re.compile\<close> (with \<open>re.IGNORECASE\<close> when
  \<open>case=False\<close>) and searches every text cell; a cell that is not a text counts as no match.
  The regular-expression engine belongs to Python and is the parameter \<open>re_compile\<close>:
  \<open>re_compile ic pat\<close> is \<open>None\<close> when \<open>pat\<close> is not a valid expression and else the
  search predicate of the compiled pattern, \<open>ic\<close> telling whether case is ignored.
\<close>

type_synonym regex_engine = "bool \<Rightarrow> string \<Rightarrow> (string \<Rightarrow> bool) option"

definition str_contains :: "regex_engine \<Rightarrow> string \<Rightarrow> bool \<Rightarrow> cell list \<Rightarrow> error + bool list" where
  "str_contains re_compile pat case_sensitive col =
     (if \<not> has_str_accessor col then Inl AttributeError
      else (case re_compile (\<not> case_sensitive) pat of
              None \<Rightarrow> Inl ReError
            | Some search \<Rightarrow> Inr (map (\<lambda>c. case c of Str s \<Rightarrow> search s | _ \<Rightarrow> False) col)))"

text \<open>The engine on a pattern without special characters: plain substring search, on the
  lower-cased strings when case is ignored.\<close>

definition literal_search :: "bool \<Rightarrow> string \<Rightarrow> string \<Rightarrow> bool" where
  "literal_search ic pat s = (if ic then sublist (lower pat) (lower s) else sublist pat s)"

definition literal_engine :: regex_engine where
  "literal_engine ic pat = Some (literal_search ic pat)"

text \<open>\<open>acts_literally re_compile pat\<close>: the engine reads \<open>pat\<close> as the text it spells, as
  Python's does for every pattern free of the characters \<open>. ^ $ * + ? { } [ ] \ | ( )\<close>.\<close>

definition acts_literally :: "regex_engine \<Rightarrow> string \<Rightarrow> bool" where
  "acts_literally re_compile pat = (\<forall>ic. re_compile ic pat = Some (literal_search ic pat))"

section \<open>The heuristic analyzer: \<open>src/survey_analyzer.py\<close>\<close>

datatype qtype = Empty | MC | SC

record question_info =
  qi_type :: qtype
  unique_values :: nat
  response_count :: nat

record survey_analyzer =
  df :: dataframe
  questions :: "(string \<times> question_info) list"
  question_types :: "(string \<times> qtype) list"

text \<open>The body of the loop of \<open>_analyze_structure\<close> for one column.\<close>

definition infer_type :: "dataframe \<Rightarrow> string \<Rightarrow> qtype" where
  "infer_type d col =
     (let unique_vals = unique (dropna (df_col d col)) in
      if length unique_vals = 0 then Empty
      else if CHR '';'' \<in> set (case dropna (df_col d col) of [] \<Rightarrow> '''' | v # _ \<Rightarrow> py_str v) then MC
      else SC)"

definition analyze_column :: "string \<Rightarrow> survey_analyzer \<Rightarrow> survey_analyzer" where
  "analyze_column col sa =
     (if col = ''ResponseId'' then sa
      else
        let unique_vals = unique (dropna (df_col (df sa) col));
            types' = dict_set (question_types sa) col (infer_type (df sa) col);
            info = \<lparr> qi_type = (case map_of types' col of Some t \<Rightarrow> t | None \<Rightarrow> Empty),
                     unique_values = length unique_vals,
                     response_count = length (filter notna (df_col (df sa) col)) \<rparr>
        in sa \<lparr> questions := dict_set (questions sa) col info, question_types := types' \<rparr>)"

definition analyze_structure :: "survey_analyzer \<Rightarrow> survey_analyzer" where
  "analyze_structure sa = fold analyze_column (columns (df sa)) sa"

text \<open>\<open>SurveyAnalyzer(path)\<close> once the sheet is loaded into \<open>d\<close>.\<close>

definition new_analyzer :: "dataframe \<Rightarrow> survey_analyzer" where
  "new_analyzer d = analyze_structure \<lparr> df = d, questions = [], question_types = [] \<rparr>"

text \<open>\<open>SurveyAnalyzer.search_questions\<close>: the catalog's keys that hold the keyword.\<close>

definition sa_search_questions :: "survey_analyzer \<Rightarrow> string \<Rightarrow> string list" where
  "sa_search_questions sa keyword =
     (let keyword_lower = lower keyword
      in filter (\<lambda>q. sublist keyword_lower (lower q)) (map fst (questions sa)))"

text \<open>The options of a multiple-choice column as \<open>search_options\<close> collects them in a
  \<open>set\<close>; a set has no order of its own, the model lists it by first appearance.\<close>

definition mc_options :: "cell list \<Rightarrow> string list" where
  "mc_options col =
     unique (concat (map (\<lambda>val. map strip (split_on CHR '';'' (py_str val))) (dropna col)))"

definition sa_search_options :: "survey_analyzer \<Rightarrow> string \<Rightarrow> string \<Rightarrow> error + string list" where
  "sa_search_options sa question keyword =
     (if question \<notin> set (columns (df sa)) then Inl (QuestionNotFound question)
      else
        let keyword_lower = lower keyword;
            matching_options =
              (if map_of (question_types sa) question = Some MC
               then filter (\<lambda>opt. sublist keyword_lower (lower opt)) (mc_options (df_col (df sa) question))
               else map py_str (filter (\<lambda>val. sublist keyword_lower (lower (py_str val)))
                                  (unique (dropna (df_col (df sa) question)))))
        in Inr (sort matching_options))"

definition create_subset :: "regex_engine \<Rightarrow> survey_analyzer \<Rightarrow> string \<Rightarrow> string \<Rightarrow> error + dataframe" where
  "create_subset re_compile sa question option =
     (if question \<notin> set (columns (df sa)) then Inl (QuestionNotFound question)
      else if map_of (question_types sa) question = Some MC
      then (case str_contains re_compile option False (df_col (df sa) question) of
              Inl e \<Rightarrow> Inl e
            | Inr found \<Rightarrow>
                Inr (df_select (df sa) (map (\<lambda>(a, b). a \<and> b) (zip (map notna (df_col (df sa) question)) found))))
      else Inr (df_select (df sa) (map (\<lambda>c. c = Str option) (df_col (df sa) question))))"

text \<open>The counting loop of \<open>get_distribution\<close> for a multiple-choice question.\<close>

definition sa_option_counts :: "cell list \<Rightarrow> (string \<times> nat) list" where
  "sa_option_counts col =
     fold (\<lambda>val counts. fold (\<lambda>opt counts. count_option counts (strip opt))
                               (split_on CHR '';'' (py_str val)) counts)
          (dropna col) []"

text \<open>\<open>df = subset_df if subset_df is not None else self.df\<close>, the rows a distribution
  is taken over.\<close>

definition frame_of :: "survey_analyzer \<Rightarrow> dataframe option \<Rightarrow> dataframe" where
  "frame_of sa subset_df = (case subset_df of Some s \<Rightarrow> s | None \<Rightarrow> df sa)"

text \<open>The option strings of a column in the order in which the counting loop of
  \<open>get_distribution\<close> meets them: every non-null cell, as a string, split at the semicolons,
  each piece stripped. \<open>text_pieces\<close> is the same for the loop of \<open>distribution_mc\<close>: text
  cells only, and the pieces as they are.\<close>

definition sa_pieces :: "cell list \<Rightarrow> string list" where
  "sa_pieces col = concat (map (\<lambda>val. map strip (split_on CHR '';'' (py_str val))) (dropna col))"

definition text_pieces :: "cell list \<Rightarrow> string list" where
  "text_pieces col =
     concat (map (\<lambda>answer. case answer of Str s \<Rightarrow> split_on CHR '';'' s | _ \<Rightarrow> []) (dropna col))"

definition get_distribution :: "survey_analyzer \<Rightarrow> string \<Rightarrow> dataframe option \<Rightarrow> error + (string \<times> real) list" where
  "get_distribution sa question subset_df =
     (let d = frame_of sa subset_df
      in if question \<notin> set (columns d) then Inl (QuestionNotFound question)
         else
           let total_responses = length (filter notna (df_col d question))
           in if total_responses = 0 then Inr []
              else
                let distribution =
                      (if map_of (question_types sa) question = Some MC
                       then dict_of_items (map (\<lambda>(opt, count). (opt, real count / real total_responses * 100))
                                             (sa_option_counts (df_col d question)))
                       else dict_of_items (map (\<lambda>(val, count). (py_str val, real count / real total_responses * 100))
                                             (value_counts (df_col d question))))
                in Inr (dict_of_items (sorted_desc distribution)))"

text \<open>Python's slices \<open>xs[:n]\<close> and \<open>xs[n:]\<close>; a negative \<open>n\<close> counts from the end.\<close>

definition slice_to :: "int \<Rightarrow> 'a list \<Rightarrow> 'a list" where
  "slice_to n xs = (if 0 \<le> n then take (nat n) xs else take (length xs - nat (- n)) xs)"

definition slice_from :: "int \<Rightarrow> 'a list \<Rightarrow> 'a list" where
  "slice_from n xs = (if 0 \<le> n then drop (nat n) xs else drop (length xs - nat (- n)) xs)"

text \<open>Rounding to two decimals, to the even neighbour on a tie, as \<open>round(x, 2)\<close> and
  \<open>Series.round(2)\<close> do, on the exact value.\<close>

definition round_half_even :: "real \<Rightarrow> int" where
  "round_half_even x =
     (let f = \<lfloor>x\<rfloor>; r = x - of_int f
      in if r < 1 / 2 then f else if 1 / 2 < r then f + 1 else if even f then f else f + 1)"

definition round2 :: "real \<Rightarrow> real" where
  "round2 x = of_int (round_half_even (x * 100)) / 100"

text \<open>\<open>if top_n\<close>: \<open>None\<close> and \<open>0\<close> are false.\<close>

definition truthy :: "int option \<Rightarrow> bool" where
  "truthy top_n = (case top_n of None \<Rightarrow> False | Some n \<Rightarrow> n \<noteq> 0)"

text \<open>\<open>display_distribution\<close> returns a frame with the columns \<open>Option\<close> and
  \<open>Percentage\<close>, here the list of its rows.\<close>

definition display_distribution ::
  "survey_analyzer \<Rightarrow> string \<Rightarrow> dataframe option \<Rightarrow> int option \<Rightarrow> error + (string \<times> real) list" where
  "display_distribution sa question subset_df top_n =
     (case get_distribution sa question subset_df of
        Inl e \<Rightarrow> Inl e
      | Inr distribution \<Rightarrow>
          if distribution = [] then Inr [(''No responses'', 0)]
          else
            let items = (if truthy top_n then slice_to (the top_n) distribution else distribution);
                df_dist = map (\<lambda>(opt, pct). (opt, round2 pct)) items
            in if truthy top_n \<and> int (length distribution) > the top_n
               then Inr (df_dist @ [(''Others'', round2 (sum_list (map snd (slice_from (the top_n) distribution))))])
               else Inr df_dist)"

section \<open>The schema-driven library: \<open>so_lib/core.py\<close> and \<open>so_lib/analysis.py\<close>\<close>

text \<open>
  \<open>load_data()\<close> reads the workbook and returns its sheets by name; the functions below
  use the sheets \<open>raw data\<close> and \<open>schema\<close>. The loaded workbook is their argument \<open>data\<close>.
  A row of the schema sheet has the columns \<open>column\<close>, \<open>question_text\<close> and \<open>type\<close>, all
  texts.
\<close>

record schema_row =
  s_column :: string
  s_question_text :: string
  s_type :: string

record so_data =
  raw_data :: dataframe
  schema :: "schema_row list"

record question =
  question_id :: string
  question_text :: string
  q_type :: string

definition list_questions :: "so_data \<Rightarrow> question list" where
  "list_questions data =
     map (\<lambda>r. \<lparr> question_id = s_column r, question_text = s_question_text r, q_type = s_type r \<rparr>)
         (schema data)"

definition search_questions :: "regex_engine \<Rightarrow> so_data \<Rightarrow> string \<Rightarrow> error + question list" where
  "search_questions re_compile data query =
     (if query = [] then Inl EmptyQuery
      else
        let questions = list_questions data
        in (case re_compile False (lower query) of
              None \<Rightarrow> Inl ReError
            | Some search \<Rightarrow>
                Inr (filter (\<lambda>q. search (lower (question_text q)) \<or> search (lower (question_id q)))
                       questions)))"

text \<open>\<open>';' in str(options)\<close>: the text of a list shows each text element with its
  characters and each number as its numeral, so it holds a semicolon exactly when a text
  element does.\<close>

definition has_semicolon :: "cell \<Rightarrow> bool" where
  "has_semicolon c = (case c of Str s \<Rightarrow> CHR '';'' \<in> set s | _ \<Rightarrow> False)"

text \<open>\<open>list(set(all_options))\<close> has no order of its own; the model lists it by first
  appearance.\<close>

definition search_options :: "so_data \<Rightarrow> string \<Rightarrow> string option \<Rightarrow> error + cell list" where
  "search_options data qid query =
     (if qid = [] then Inl EmptyQuestionId
      else if qid \<notin> set (columns (raw_data data)) then Inl (QuestionNotFound qid)
      else
        let options = unique (dropna (df_col (raw_data data) qid));
            options1 =
              (if list_ex has_semicolon options
               then unique (concat (map (\<lambda>opt. if has_semicolon opt
                                                then map Str (split_on CHR '';'' (py_str opt))
                                                else [opt]) options))
               else options);
            options2 =
              (case query of
                 None \<Rightarrow> options1
               | Some q \<Rightarrow> if q = [] then options1
                           else filter (\<lambda>opt. sublist (lower q) (lower (py_str opt))) options1)
        in Inr options2)"

text \<open>\<open>schema.loc[schema['column'] == question_id, field].iloc[0]\<close>.\<close>

definition schema_lookup :: "so_data \<Rightarrow> string \<Rightarrow> (schema_row \<Rightarrow> string) \<Rightarrow> error + string" where
  "schema_lookup data qid field =
     (case filter (\<lambda>r. s_column r = qid) (schema data) of
        [] \<Rightarrow> Inl IndexError
      | r # _ \<Rightarrow> Inr (field r))"

definition subset_respondents :: "regex_engine \<Rightarrow> so_data \<Rightarrow> string \<Rightarrow> string \<Rightarrow> error + dataframe" where
  "subset_respondents re_compile data qid option =
     (if qid = [] then Inl EmptyQuestionId
      else if option = [] then Inl EmptyOption
      else if qid \<notin> set (columns (raw_data data)) then Inl (QuestionNotFound qid)
      else (case schema_lookup data qid s_type of
              Inl e \<Rightarrow> Inl e
            | Inr question_type \<Rightarrow>
                if question_type = ''SC''
                then Inr (df_select (raw_data data) (map (\<lambda>c. c = Str option) (df_col (raw_data data) qid)))
                else (case str_contains re_compile option True (df_col (raw_data data) qid) of
                        Inl e \<Rightarrow> Inl e
                      | Inr found \<Rightarrow> Inr (df_select (raw_data data) found))))"

record 'k dist_result =
  r_question_id :: string
  r_question_text :: string
  distribution :: "('k \<times> real) list"

definition distribution_sc :: "so_data \<Rightarrow> string \<Rightarrow> error + cell dist_result" where
  "distribution_sc data qid =
     (if qid = [] then Inl EmptyQuestionId
      else if qid \<notin> set (columns (raw_data data)) then Inl (QuestionNotFound qid)
      else (case schema_lookup data qid s_type of
              Inl e \<Rightarrow> Inl e
            | Inr question_type \<Rightarrow>
                if question_type \<noteq> ''SC'' then Inl (NotSingleChoice qid)
                else
                  let total_responses = length (filter notna (df_col (raw_data data) qid));
                      dist = dict_of_items
                               (map (\<lambda>(option, count). (option, real count / real total_responses * 100))
                                  (value_counts (df_col (raw_data data) qid)))
                  in (case schema_lookup data qid s_question_text of
                        Inl e \<Rightarrow> Inl e
                      | Inr text \<Rightarrow>
                          Inr \<lparr> r_question_id = qid, r_question_text = text, distribution = dist \<rparr>)))"

text \<open>The counting loop of \<open>distribution_mc\<close>: only text answers are split, and the pieces
  are counted as they are.\<close>

definition options_count :: "cell list \<Rightarrow> (string \<times> nat) list" where
  "options_count col =
     fold (\<lambda>answer counts.
             (case answer of
                Str s \<Rightarrow> fold (\<lambda>option counts. count_option counts option) (split_on CHR '';'' s) counts
              | _ \<Rightarrow> counts))
          (dropna col) []"

definition distribution_mc :: "so_data \<Rightarrow> string \<Rightarrow> error + string dist_result" where
  "distribution_mc data qid =
     (if qid = [] then Inl EmptyQuestionId
      else if qid \<notin> set (columns (raw_data data)) then Inl (QuestionNotFound qid)
      else (case schema_lookup data qid s_type of
              Inl e \<Rightarrow> Inl e
            | Inr question_type \<Rightarrow>
                if question_type \<noteq> ''MC'' then Inl (NotMultipleChoice qid)
                else
                  let total_respondents = length (rows (raw_data data));
                      dist = dict_of_items
                               (map (\<lambda>(option, count). (option, real count / real total_respondents * 100))
                                  (options_count (df_col (raw_data data) qid)))
                  in (case schema_lookup data qid s_question_text of
                        Inl e \<Rightarrow> Inl e
                      | Inr text \<Rightarrow>
                          Inr \<lparr> r_question_id = qid, r_question_text = text, distribution = dist \<rparr>)))"

text \<open>\<open>format_distribution\<close> of \<open>so_lib/cli.py\<close> prints the entries in the order
  \<open>sorted_dist\<close>.\<close>

definition sorted_dist :: "'k dist_result \<Rightarrow> ('k \<times> real) list" where
  "sorted_dist dist_data = sorted_desc (distribution dist_data)"

section \<open>Properties of the containers\<close>

lemma map_of_dict_set: "map_of (dict_set d k v) = (map_of d)(k \<mapsto> v)"
  by (induction d k v rule: dict_set.induct) auto

lemma unique_Nil_iff: "unique xs = [] \<longleftrightarrow> xs = []"
  by (cases xs) simp_all

section \<open>Structure inference\<close>

lemma analyze_column_df: "df (analyze_column col sa) = df sa"
  by (simp add: analyze_column_def Let_def)

lemma fold_analyze_column_df: "df (fold analyze_column cols sa) = df sa"
  by (induction cols arbitrary: sa) (simp_all add: analyze_column_df)

lemma fold_analyze_column_questions:
  "map_of (questions (fold analyze_column cols sa)) col =
     (if col \<in> set cols \<and> col \<noteq> ''ResponseId''
      then Some \<lparr> qi_type = infer_type (df sa) col,
                  unique_values = length (unique (dropna (df_col (df sa) col))),
                  response_count = length (filter notna (df_col (df sa) col)) \<rparr>
      else map_of (questions sa) col)"
proof (induction cols arbitrary: sa)
  case Nil
  then show ?case by simp
next
  case (Cons c cols)
  show ?case
    by (simp add: Cons.IH analyze_column_df)
       (auto simp: analyze_column_def Let_def map_of_dict_set)
qed

lemma fold_analyze_column_types:
  "map_of (question_types (fold analyze_column cols sa)) col =
     (if col \<in> set cols \<and> col \<noteq> ''ResponseId'' then Some (infer_type (df sa) col)
      else map_of (question_types sa) col)"
proof (induction cols arbitrary: sa)
  case Nil
  then show ?case by simp
next
  case (Cons c cols)
  show ?case
    by (simp add: Cons.IH analyze_column_df)
       (auto simp: analyze_column_def Let_def map_of_dict_set)
qed

lemma new_analyzer_df: "df (new_analyzer d) = d"
  by (simp add: new_analyzer_def analyze_structure_def fold_analyze_column_df)

lemma new_analyzer_questions:
  "map_of (questions (new_analyzer d)) col =
     (if col \<in> set (columns d) \<and> col \<noteq> ''ResponseId''
      then Some \<lparr> qi_type = infer_type d col,
                  unique_values = length (unique (dropna (df_col d col))),
                  response_count = length (filter notna (df_col d col)) \<rparr>
      else None)"
  by (simp add: new_analyzer_def analyze_structure_def fold_analyze_column_questions)

lemma new_analyzer_types:
  "map_of (question_types (new_analyzer d)) col =
     (if col \<in> set (columns d) \<and> col \<noteq> ''ResponseId'' then Some (infer_type d col) else None)"
  by (simp add: new_analyzer_def analyze_structure_def fold_analyze_column_types)

lemma infer_type_cases:
  "infer_type d col =
     (if dropna (df_col d col) = [] then Empty
      else if CHR '';'' \<in> set (py_str (hd (dropna (df_col d col)))) then MC else SC)"
  by (cases "dropna (df_col d col)") (simp_all add: infer_type_def Let_def)

text \<open>
  Claim C7. With no schema, the catalog that \<open>_analyze_structure\<close> builds has an entry for
  every column but \<open>ResponseId\<close>; its \<open>response_count\<close> is the number of non-null cells of
  the column; its type is \<open>empty\<close> exactly when that count is 0, and otherwise \<open>MC\<close> exactly
  when the first non-null value, as a string, holds a semicolon, and \<open>SC\<close> exactly when it
  does not. \<open>ResponseId\<close> has no entry.
\<close>

theorem catalog_type_inference:
  assumes "col \<in> set (columns d)" and "col \<noteq> ''ResponseId''"
  shows "\<exists>info. map_of (questions (new_analyzer d)) col = Some info
           \<and> map_of (question_types (new_analyzer d)) col = Some (qi_type info)
           \<and> response_count info = length (dropna (df_col d col))
           \<and> (qi_type info = Empty \<longleftrightarrow> response_count info = 0)
           \<and> (response_count info \<noteq> 0 \<longrightarrow>
                (qi_type info = MC \<longleftrightarrow> CHR '';'' \<in> set (py_str (hd (dropna (df_col d col)))))
              \<and> (qi_type info = SC \<longleftrightarrow> CHR '';'' \<notin> set (py_str (hd (dropna (df_col d col))))))
           \<and> map_of (questions (new_analyzer d)) ''ResponseId'' = None"
  using assms
  by (simp add: new_analyzer_questions new_analyzer_types infer_type_cases dropna_def)

theorem catalog_type_inference_witness:
  "''Languages'' \<in> set (columns \<lparr> columns = [''ResponseId'', ''Languages''],
                                  rows = [[(''ResponseId'', Num 1), (''Languages'', NaN)],
                                          [(''ResponseId'', Num 2), (''Languages'', Str ''Python;Java'')]] \<rparr>)
   \<and> ''Languages'' \<noteq> ''ResponseId''
   \<and> map_of (question_types (new_analyzer \<lparr> columns = [''ResponseId'', ''Languages''],
                                  rows = [[(''ResponseId'', Num 1), (''Languages'', NaN)],
                                          [(''ResponseId'', Num 2), (''Languages'', Str ''Python;Java'')]] \<rparr>))
        ''Languages'' = Some MC"
  using catalog_type_inference [of "''Languages''" "\<lparr> columns = [''ResponseId'', ''Languages''],
                                  rows = [[(''ResponseId'', Num 1), (''Languages'', NaN)],
                                          [(''ResponseId'', Num 2), (''Languages'', Str ''Python;Java'')]] \<rparr>"]
  by (auto simp: df_col_def dropna_def notna_def row_get_def)

section \<open>Unknown questions\<close>

text \<open>
  The library checks the id for emptiness before it looks at the columns: the empty id,
  which is no column, fails with "Question ID must be a non-empty string".
\<close>

theorem empty_question_id_error:
  "[] \<notin> set (columns (raw_data \<lparr> raw_data = \<lparr> columns = [''Q1''], rows = [[(''Q1'', Str ''A'')]] \<rparr>,
                                    schema = [\<lparr> s_column = ''Q1'', s_question_text = ''First?'', s_type = ''SC'' \<rparr>] \<rparr>))
   \<and> search_options \<lparr> raw_data = \<lparr> columns = [''Q1''], rows = [[(''Q1'', Str ''A'')]] \<rparr>,
                       schema = [\<lparr> s_column = ''Q1'', s_question_text = ''First?'', s_type = ''SC'' \<rparr>] \<rparr> [] None
       = Inl EmptyQuestionId
   \<and> Inl EmptyQuestionId \<noteq> (Inl (QuestionNotFound []) :: error + cell list)"
  by (simp add: search_options_def)

text \<open>
  A question that is not a column of the frame read. In \<open>SurveyAnalyzer\<close>,
  \<open>search_options\<close>, \<open>create_subset\<close>, \<open>get_distribution\<close> and \<open>display_distribution\<close>
  fail with the not-found \<open>ValueError\<close> for every question that is not a column of the
  frame they read (the analyzer's frame, or the subset handed to the distribution). In the
  schema-driven library, \<open>search_options\<close>, \<open>distribution_sc\<close> and \<open>distribution_mc\<close> do so
  for every non-empty id that is not a column of the raw data, and \<open>subset_respondents\<close>
  does when the option is non-empty too.
\<close>

theorem unknown_question_fails:
  "(question \<notin> set (columns (df sa)) \<longrightarrow>
       sa_search_options sa question keyword = Inl (QuestionNotFound question)
     \<and> create_subset re_compile sa question option = Inl (QuestionNotFound question)
     \<and> get_distribution sa question None = Inl (QuestionNotFound question)
     \<and> display_distribution sa question None top_n = Inl (QuestionNotFound question))
   \<and> (question \<notin> set (columns subset_df) \<longrightarrow>
       get_distribution sa question (Some subset_df) = Inl (QuestionNotFound question)
     \<and> display_distribution sa question (Some subset_df) top_n = Inl (QuestionNotFound question))
   \<and> (qid \<noteq> [] \<and> qid \<notin> set (columns (raw_data data)) \<longrightarrow>
       search_options data qid query = Inl (QuestionNotFound qid)
     \<and> distribution_sc data qid = Inl (QuestionNotFound qid)
     \<and> distribution_mc data qid = Inl (QuestionNotFound qid)
     \<and> (option \<noteq> [] \<longrightarrow> subset_respondents re_compile data qid option = Inl (QuestionNotFound qid)))
   \<and> search_options data [] query = Inl EmptyQuestionId
   \<and> distribution_sc data [] = Inl EmptyQuestionId
   \<and> distribution_mc data [] = Inl EmptyQuestionId
   \<and> subset_respondents re_compile data [] option = Inl EmptyQuestionId
   \<and> (qid \<noteq> [] \<longrightarrow> subset_respondents re_compile data qid [] = Inl EmptyOption)"
  by (simp add: sa_search_options_def create_subset_def get_distribution_def display_distribution_def
      frame_of_def search_options_def distribution_sc_def distribution_mc_def subset_respondents_def)

theorem unknown_question_fails_witness:
  "''Salary'' \<notin> set (columns (df \<lparr> df = \<lparr> columns = [''Country''], rows = [[(''Country'', Str ''UK'')]] \<rparr>,
                                      questions = [], question_types = [(''Country'', SC)] \<rparr>))
   \<and> ''Salary'' \<notin> set (columns \<lparr> columns = [''Country''], rows = [] \<rparr>)
   \<and> ''Q9'' \<noteq> []
   \<and> ''Q9'' \<notin> set (columns (raw_data \<lparr> raw_data = \<lparr> columns = [''Q1''], rows = [[(''Q1'', Str ''A'')]] \<rparr>,
                                          schema = [\<lparr> s_column = ''Q1'', s_question_text = ''First?'', s_type = ''SC'' \<rparr>] \<rparr>))
   \<and> ''A'' \<noteq> []
   \<and> create_subset literal_engine
        \<lparr> df = \<lparr> columns = [''Country''], rows = [[(''Country'', Str ''UK'')]] \<rparr>,
          questions = [], question_types = [(''Country'', SC)] \<rparr> ''Salary'' ''A''
       = Inl (QuestionNotFound ''Salary'')
   \<and> get_distribution
        \<lparr> df = \<lparr> columns = [''Country''], rows = [[(''Country'', Str ''UK'')]] \<rparr>,
          questions = [], question_types = [(''Country'', SC)] \<rparr> ''Salary''
        (Some \<lparr> columns = [''Country''], rows = [] \<rparr>)
       = Inl (QuestionNotFound ''Salary'')
   \<and> subset_respondents literal_engine
        \<lparr> raw_data = \<lparr> columns = [''Q1''], rows = [[(''Q1'', Str ''A'')]] \<rparr>,
          schema = [\<lparr> s_column = ''Q1'', s_question_text = ''First?'', s_type = ''SC'' \<rparr>] \<rparr> ''Q9'' ''A''
       = Inl (QuestionNotFound ''Q9'')"
  using unknown_question_fails [of "''Salary''"
      "\<lparr> df = \<lparr> columns = [''Country''], rows = [[(''Country'', Str ''UK'')]] \<rparr>,
         questions = [], question_types = [(''Country'', SC)] \<rparr>"
      "''x''" literal_engine "''A''" "Some 10"
      "\<lparr> columns = [''Country''], rows = [] \<rparr>"
      "''Q9''"
      "\<lparr> raw_data = \<lparr> columns = [''Q1''], rows = [[(''Q1'', Str ''A'')]] \<rparr>,
         schema = [\<lparr> s_column = ''Q1'', s_question_text = ''First?'', s_type = ''SC'' \<rparr>] \<rparr>"
      None]
  by simp

text \<open>
  A question that is a column of the data and has no catalog entry. The library reads the
  type of the question with \<open>.iloc[0]\<close> from the rows of the schema that name it: when no
  row does, the selection is empty and the functions that need the type fail with
  \<open>IndexError\<close>, whatever the question holds.
\<close>

lemma schema_missing_index_error:
  assumes "qid \<noteq> []" and "qid \<in> set (columns (raw_data data))"
    and "filter (\<lambda>r. s_column r = qid) (schema data) = []"
  shows "distribution_sc data qid = Inl IndexError"
    and "distribution_mc data qid = Inl IndexError"
    and "option \<noteq> [] \<Longrightarrow> subset_respondents re_compile data qid option = Inl IndexError"
  using assms
  by (simp_all add: distribution_sc_def distribution_mc_def subset_respondents_def schema_lookup_def)

text \<open>
  Claim C9 says that every question id absent from the catalog makes \<open>search_options\<close>,
  \<open>create_subset\<close> and the distribution functions fail with the not-found error. For the
  column \<open>ResponseId\<close>, which the schema does not list, \<open>distribution_sc\<close>,
  \<open>distribution_mc\<close> and \<open>subset_respondents\<close> fail with \<open>IndexError\<close>, where their
  docstrings announce a \<open>ValueError\<close>, and the library's \<open>search_options\<close> returns the
  cells. \<open>SurveyAnalyzer\<close> keeps \<open>ResponseId\<close> out of its catalog and tests the columns of
  the frame: \<open>search_options\<close>, \<open>create_subset\<close> and \<open>get_distribution\<close> return results
  for it.
\<close>

theorem schema_missing_question_error:
  "''ResponseId'' \<in> set (columns (raw_data \<lparr> raw_data = \<lparr> columns = [''ResponseId'', ''Q1''],
                     rows = [[(''ResponseId'', Num 1), (''Q1'', Str ''A'')],
                             [(''ResponseId'', Num 2), (''Q1'', Str ''B'')]] \<rparr>,
         schema = [\<lparr> s_column = ''Q1'', s_question_text = ''First?'', s_type = ''SC'' \<rparr>] \<rparr>))
   \<and> filter (\<lambda>r. s_column r = ''ResponseId'') (schema \<lparr> raw_data = \<lparr> columns = [''ResponseId'', ''Q1''],
                     rows = [[(''ResponseId'', Num 1), (''Q1'', Str ''A'')],
                             [(''ResponseId'', Num 2), (''Q1'', Str ''B'')]] \<rparr>,
         schema = [\<lparr> s_column = ''Q1'', s_question_text = ''First?'', s_type = ''SC'' \<rparr>] \<rparr>) = []
   \<and> distribution_sc \<lparr> raw_data = \<lparr> columns = [''ResponseId'', ''Q1''],
                     rows = [[(''ResponseId'', Num 1), (''Q1'', Str ''A'')],
                             [(''ResponseId'', Num 2), (''Q1'', Str ''B'')]] \<rparr>,
         schema = [\<lparr> s_column = ''Q1'', s_question_text = ''First?'', s_type = ''SC'' \<rparr>] \<rparr> ''ResponseId'' = Inl IndexError
   \<and> distribution_mc \<lparr> raw_data = \<lparr> columns = [''ResponseId'', ''Q1''],
                     rows = [[(''ResponseId'', Num 1), (''Q1'', Str ''A'')],
                             [(''ResponseId'', Num 2), (''Q1'', Str ''B'')]] \<rparr>,
         schema = [\<lparr> s_column = ''Q1'', s_question_text = ''First?'', s_type = ''SC'' \<rparr>] \<rparr> ''ResponseId'' = Inl IndexError
   \<and> subset_respondents literal_engine \<lparr> raw_data = \<lparr> columns = [''ResponseId'', ''Q1''],
                     rows = [[(''ResponseId'', Num 1), (''Q1'', Str ''A'')],
                             [(''ResponseId'', Num 2), (''Q1'', Str ''B'')]] \<rparr>,
         schema = [\<lparr> s_column = ''Q1'', s_question_text = ''First?'', s_type = ''SC'' \<rparr>] \<rparr> ''ResponseId'' ''1'' = Inl IndexError
   \<and> search_options \<lparr> raw_data = \<lparr> columns = [''ResponseId'', ''Q1''],
                     rows = [[(''ResponseId'', Num 1), (''Q1'', Str ''A'')],
                             [(''ResponseId'', Num 2), (''Q1'', Str ''B'')]] \<rparr>,
         schema = [\<lparr> s_column = ''Q1'', s_question_text = ''First?'', s_type = ''SC'' \<rparr>] \<rparr> ''ResponseId'' None = Inr [Num 1, Num 2]
   \<and> IndexError \<noteq> QuestionNotFound ''ResponseId''
   \<and> map_of (questions (new_analyzer \<lparr> columns = [''ResponseId'', ''Q1''],
                    rows = [[(''ResponseId'', Num 1), (''Q1'', Str ''A'')]] \<rparr>)) ''ResponseId'' = None
   \<and> sa_search_options (new_analyzer \<lparr> columns = [''ResponseId'', ''Q1''],
                    rows = [[(''ResponseId'', Num 1), (''Q1'', Str ''A'')]] \<rparr>) ''ResponseId'' ''1'' = Inr [''1'']
   \<and> create_subset literal_engine (new_analyzer \<lparr> columns = [''ResponseId'', ''Q1''],
                    rows = [[(''ResponseId'', Num 1), (''Q1'', Str ''A'')]] \<rparr>) ''ResponseId'' ''1''
       = Inr \<lparr> columns = [''ResponseId'', ''Q1''], rows = [] \<rparr>
   \<and> get_distribution (new_analyzer \<lparr> columns = [''ResponseId'', ''Q1''],
                    rows = [[(''ResponseId'', Num 1), (''Q1'', Str ''A'')]] \<rparr>) ''ResponseId'' None = Inr [(''1'', 100)]"
  by code_simp

section \<open>Searching questions\<close>

lemma literal_engine_acts_literally: "acts_literally literal_engine pat"
  by (simp add: acts_literally_def literal_engine_def)

text \<open>
  Claim C8, as stated: an empty query fails with an invalid-argument error.
  \<open>SurveyAnalyzer.search_questions\<close> has no such check: the empty keyword is part of every
  name, and the whole catalog comes back.
\<close>

theorem search_questions_empty_counterexample:
  "sa_search_questions \<lparr> df = \<lparr> columns = [''Country''], rows = [[(''Country'', Str ''UK'')]] \<rparr>,
                          questions = [(''Country'', \<lparr> qi_type = SC, unique_values = 1, response_count = 1 \<rparr>)],
                          question_types = [(''Country'', SC)] \<rparr> []
   = [''Country'']"
  by (simp add: sa_search_questions_def lower_def)

text \<open>
  Claim C8, amended. The library's \<open>search_questions\<close> fails with the "Query must be a
  non-empty string" \<open>ValueError\<close> on the empty query; for a non-empty query that the
  regular-expression engine reads as plain text, it returns exactly the schema's questions
  whose text or id holds the query, case ignored, in schema order (an empty list when none
  does). \<open>SurveyAnalyzer.search_questions\<close> returns, for every keyword, the catalog's
  question names that hold the keyword, case ignored, in catalog order; for the empty
  keyword that is the whole catalog.
\<close>

theorem search_questions_matches:
  "search_questions re_compile data [] = Inl EmptyQuery
   \<and> (query \<noteq> [] \<and> acts_literally re_compile (lower query) \<longrightarrow>
        search_questions re_compile data query =
          Inr (filter (\<lambda>q. sublist (lower query) (lower (question_text q))
                            \<or> sublist (lower query) (lower (question_id q)))
                 (list_questions data)))
   \<and> sa_search_questions sa keyword =
         filter (\<lambda>q. sublist (lower keyword) (lower q)) (map fst (questions sa))
   \<and> sa_search_questions sa [] = map fst (questions sa)"
  by (simp add: search_questions_def sa_search_questions_def acts_literally_def literal_search_def
      Let_def lower_def)

theorem search_questions_matches_witness:
  "''MULTIPLE'' \<noteq> [] \<and> acts_literally literal_engine (lower ''MULTIPLE'')
   \<and> search_questions literal_engine
        \<lparr> raw_data = \<lparr> columns = [''Q1'', ''Q2''], rows = [] \<rparr>,
          schema = [\<lparr> s_column = ''Q1'', s_question_text = ''Test question 1?'', s_type = ''SC'' \<rparr>,
                    \<lparr> s_column = ''Q2'', s_question_text = ''Test multiple-choice question?'', s_type = ''MC'' \<rparr>] \<rparr>
        ''MULTIPLE''
       = Inr [\<lparr> question_id = ''Q2'', question_text = ''Test multiple-choice question?'', q_type = ''MC'' \<rparr>]"
proof -
  have lit: "acts_literally literal_engine (lower ''MULTIPLE'')"
    by (rule literal_engine_acts_literally)
  have found:
    "filter (\<lambda>q. sublist (lower ''MULTIPLE'') (lower (question_text q))
                  \<or> sublist (lower ''MULTIPLE'') (lower (question_id q)))
       (list_questions
          \<lparr> raw_data = \<lparr> columns = [''Q1'', ''Q2''], rows = [] \<rparr>,
            schema = [\<lparr> s_column = ''Q1'', s_question_text = ''Test question 1?'', s_type = ''SC'' \<rparr>,
                      \<lparr> s_column = ''Q2'', s_question_text = ''Test multiple-choice question?'', s_type = ''MC'' \<rparr>] \<rparr>)
     = [\<lparr> question_id = ''Q2'', question_text = ''Test multiple-choice question?'', q_type = ''MC'' \<rparr>]"
    by code_simp
  show ?thesis
    using lit found
      search_questions_matches [of literal_engine
        "\<lparr> raw_data = \<lparr> columns = [''Q1'', ''Q2''], rows = [] \<rparr>,
           schema = [\<lparr> s_column = ''Q1'', s_question_text = ''Test question 1?'', s_type = ''SC'' \<rparr>,
                     \<lparr> s_column = ''Q2'', s_question_text = ''Test multiple-choice question?'', s_type = ''MC'' \<rparr>] \<rparr>"
        "''MULTIPLE''"]
    by simp
qed

section \<open>Subsets\<close>

lemma digit_char_not_semicolon: "n < 10 \<Longrightarrow> digit_char n \<noteq> CHR '';''"
proof -
  assume "n < 10"
  then have "n \<in> {0, 1, 2, 3, 4, 5, 6, 7, 8, 9}" by auto
  then show ?thesis by (auto simp: digit_char_def)
qed

lemma str_nat_no_semicolon: "CHR '';'' \<notin> set (str_nat n)"
proof (induction n rule: str_nat.induct)
  case (1 n)
  show ?case
  proof (cases "n < 10")
    case True
    then show ?thesis
      using digit_char_not_semicolon [of n] by (simp add: str_nat.simps [of n])
  next
    case False
    then show ?thesis
      using 1 digit_char_not_semicolon [of "n mod 10"] by (simp add: str_nat.simps [of n])
  qed
qed

lemma str_int_no_semicolon: "CHR '';'' \<notin> set (str_int i)"
  by (simp add: str_int_def str_nat_no_semicolon)

lemma semicolon_is_text: "notna c \<Longrightarrow> CHR '';'' \<in> set (py_str c) \<Longrightarrow> is_text c"
  by (cases c) (simp_all add: is_text_def notna_def str_int_no_semicolon)

lemma infer_type_MC_has_text:
  assumes "infer_type d col = MC"
  shows "list_ex is_text (df_col d col)"
proof -
  from assms have ne: "dropna (df_col d col) \<noteq> []"
    and semi: "CHR '';'' \<in> set (py_str (hd (dropna (df_col d col))))"
    by (auto simp: infer_type_cases split: if_splits)
  from ne have mem: "hd (dropna (df_col d col)) \<in> set (dropna (df_col d col))"
    by simp
  then have "notna (hd (dropna (df_col d col)))" and "hd (dropna (df_col d col)) \<in> set (df_col d col)"
    by (simp_all add: dropna_def)
  with semi show ?thesis
    by (auto simp: list_ex_iff intro: semicolon_is_text)
qed

lemma select_by_mask: "map fst (filter snd (zip xs (map P xs))) = filter P xs"
  by (induction xs) simp_all

lemma df_select_col:
  "df_select d (map P (df_col d col)) = d \<lparr> rows := filter (\<lambda>r. P (row_get r col)) (rows d) \<rparr>"
proof -
  have "map fst (filter snd (zip (rows d) (map (\<lambda>r. P (row_get r col)) (rows d))))
        = filter (\<lambda>r. P (row_get r col)) (rows d)"
    by (rule select_by_mask)
  then show ?thesis by (simp add: df_select_def df_col_def comp_def)
qed

lemma notna_and_found:
  "map (\<lambda>(a, b). a \<and> b) (zip (map notna col) (map (\<lambda>c. case c of Str s \<Rightarrow> P s | _ \<Rightarrow> False) col))
   = map (\<lambda>c. case c of Str s \<Rightarrow> P s | _ \<Rightarrow> False) col"
  by (induction col) (auto simp: notna_def split: cell.splits)

lemma literal_search_ignoring_case: "literal_search True pat = (\<lambda>s. sublist (lower pat) (lower s))"
  by (rule ext) (simp add: literal_search_def)

lemma literal_search_exact: "literal_search False pat = (\<lambda>s. sublist pat s)"
  by (rule ext) (simp add: literal_search_def)

text \<open>
  Claim C2, amended. In \<open>SurveyAnalyzer.create_subset\<close>, for a question the analyzer
  typed \<open>MC\<close> and an option the regular-expression engine reads as plain text, the result
  is the frame's rows whose cell is a text holding the option, case ignored; for every other
  column it is the rows whose cell equals the option exactly. In \<open>subset_respondents\<close>, for a
  question the schema types \<open>SC\<close>, the result is the rows whose cell equals the option
  exactly; for any other schema type, a column with the \<open>.str\<close> accessor and an option read
  as plain text, it is the rows whose cell is a text holding the option with its case. In
  all four cases the rows keep their order and every column.
\<close>

theorem create_subset_rows:
  "(question \<in> set (columns d) \<longrightarrow>
      (map_of (question_types (new_analyzer d)) question = Some MC \<and> acts_literally re_compile option \<longrightarrow>
         create_subset re_compile (new_analyzer d) question option =
           Inr (d \<lparr> rows := filter (\<lambda>r. case row_get r question of
                                          Str s \<Rightarrow> sublist (lower option) (lower s) | _ \<Rightarrow> False) (rows d) \<rparr>))
    \<and> (map_of (question_types (new_analyzer d)) question \<noteq> Some MC \<longrightarrow>
         create_subset re_compile (new_analyzer d) question option =
           Inr (d \<lparr> rows := filter (\<lambda>r. row_get r question = Str option) (rows d) \<rparr>)))
   \<and> (qid \<noteq> [] \<and> option \<noteq> [] \<and> qid \<in> set (columns (raw_data data))
        \<and> schema_lookup data qid s_type = Inr t \<longrightarrow>
      (t = ''SC'' \<longrightarrow>
         subset_respondents re_compile data qid option =
           Inr ((raw_data data) \<lparr> rows := filter (\<lambda>r. row_get r qid = Str option) (rows (raw_data data)) \<rparr>))
    \<and> (t \<noteq> ''SC'' \<and> has_str_accessor (df_col (raw_data data) qid) \<and> acts_literally re_compile option \<longrightarrow>
         subset_respondents re_compile data qid option =
           Inr ((raw_data data) \<lparr> rows := filter (\<lambda>r. case row_get r qid of
                                          Str s \<Rightarrow> sublist option s | _ \<Rightarrow> False) (rows (raw_data data)) \<rparr>)))"
proof -
  have sa_mc: "create_subset re_compile (new_analyzer d) question option =
           Inr (d \<lparr> rows := filter (\<lambda>r. case row_get r question of
                                          Str s \<Rightarrow> sublist (lower option) (lower s) | _ \<Rightarrow> False) (rows d) \<rparr>)"
    if q: "question \<in> set (columns d)"
      and mc: "map_of (question_types (new_analyzer d)) question = Some MC"
      and lit: "acts_literally re_compile option"
  proof -
    from mc have "infer_type d question = MC"
      by (simp add: new_analyzer_types split: if_splits)
    then have acc: "has_str_accessor (df_col d question)"
      by (simp add: has_str_accessor_def infer_type_MC_has_text)
    from lit have rc: "re_compile True option = Some (\<lambda>s. sublist (lower option) (lower s))"
      by (simp add: acts_literally_def literal_search_ignoring_case)
    have "str_contains re_compile option False (df_col d question)
          = Inr (map (\<lambda>c. case c of Str s \<Rightarrow> sublist (lower option) (lower s) | _ \<Rightarrow> False) (df_col d question))"
      using acc rc by (simp add: str_contains_def)
    then show ?thesis
      using q mc
      by (simp add: create_subset_def new_analyzer_df notna_and_found df_select_col)
  qed
  have sa_sc: "create_subset re_compile (new_analyzer d) question option =
           Inr (d \<lparr> rows := filter (\<lambda>r. row_get r question = Str option) (rows d) \<rparr>)"
    if "question \<in> set (columns d)"
      and "map_of (question_types (new_analyzer d)) question \<noteq> Some MC"
    using that by (simp add: create_subset_def new_analyzer_df df_select_col)
  have so_sc: "subset_respondents re_compile data qid option =
           Inr ((raw_data data) \<lparr> rows := filter (\<lambda>r. row_get r qid = Str option) (rows (raw_data data)) \<rparr>)"
    if "qid \<noteq> []" "option \<noteq> []" "qid \<in> set (columns (raw_data data))"
      "schema_lookup data qid s_type = Inr t" "t = ''SC''"
    using that by (simp add: subset_respondents_def df_select_col)
  have so_mc: "subset_respondents re_compile data qid option =
           Inr ((raw_data data) \<lparr> rows := filter (\<lambda>r. case row_get r qid of
                                          Str s \<Rightarrow> sublist option s | _ \<Rightarrow> False) (rows (raw_data data)) \<rparr>)"
    if "qid \<noteq> []" "option \<noteq> []" "qid \<in> set (columns (raw_data data))"
      "schema_lookup data qid s_type = Inr t" "t \<noteq> ''SC''"
      "has_str_accessor (df_col (raw_data data) qid)" "acts_literally re_compile option"
  proof -
    from that have rc: "re_compile False option = Some (\<lambda>s. sublist option s)"
      by (simp add: acts_literally_def literal_search_exact)
    have "str_contains re_compile option True (df_col (raw_data data) qid)
          = Inr (map (\<lambda>c. case c of Str s \<Rightarrow> sublist option s | _ \<Rightarrow> False) (df_col (raw_data data) qid))"
      using that rc by (simp add: str_contains_def)
    then show ?thesis
      using that by (simp add: subset_respondents_def df_select_col)
  qed
  show ?thesis
    using sa_mc sa_sc so_sc so_mc by blast
qed


text \<open>
  Claim C2, as stated: for a multiple-choice question the rows are those whose cell holds
  the option, case ignored. \<open>subset_respondents\<close> searches with the case as given: the cell
  \<open>Python;Java\<close> holds \<open>python\<close> when case is ignored, and the subset is empty.
\<close>

theorem create_subset_counterexample:
  "sublist (lower ''python'') (lower ''Python;Java'')
   \<and> subset_respondents literal_engine
        \<lparr> raw_data = \<lparr> columns = [''Country'', ''Languages''],
       rows = [[(''Country'', Str ''USA''), (''Languages'', Str ''Python;Java'')],
               [(''Country'', Str ''UK''), (''Languages'', Str ''Go'')],
               [(''Country'', Str ''USA''), (''Languages'', NaN)]] \<rparr>,
       schema = [\<lparr> s_column = ''Country'', s_question_text = ''Where?'', s_type = ''SC'' \<rparr>,
                 \<lparr> s_column = ''Languages'', s_question_text = ''Which?'', s_type = ''MC'' \<rparr>] \<rparr>
        ''Languages'' ''python''
       = Inr \<lparr> columns = [''Country'', ''Languages''],
       rows = [] \<rparr>"
  by code_simp

theorem create_subset_rows_witness:
  "''Languages'' \<in> set (columns \<lparr> columns = [''Country'', ''Languages''],
       rows = [[(''Country'', Str ''USA''), (''Languages'', Str ''Python;Java'')],
               [(''Country'', Str ''UK''), (''Languages'', Str ''Go'')],
               [(''Country'', Str ''USA''), (''Languages'', NaN)]] \<rparr>)
   \<and> map_of (question_types (new_analyzer \<lparr> columns = [''Country'', ''Languages''],
       rows = [[(''Country'', Str ''USA''), (''Languages'', Str ''Python;Java'')],
               [(''Country'', Str ''UK''), (''Languages'', Str ''Go'')],
               [(''Country'', Str ''USA''), (''Languages'', NaN)]] \<rparr>)) ''Languages'' = Some MC
   \<and> map_of (question_types (new_analyzer \<lparr> columns = [''Country'', ''Languages''],
       rows = [[(''Country'', Str ''USA''), (''Languages'', Str ''Python;Java'')],
               [(''Country'', Str ''UK''), (''Languages'', Str ''Go'')],
               [(''Country'', Str ''USA''), (''Languages'', NaN)]] \<rparr>)) ''Country'' \<noteq> Some MC
   \<and> acts_literally literal_engine ''python''
   \<and> schema_lookup \<lparr> raw_data = \<lparr> columns = [''Country'', ''Languages''],
       rows = [[(''Country'', Str ''USA''), (''Languages'', Str ''Python;Java'')],
               [(''Country'', Str ''UK''), (''Languages'', Str ''Go'')],
               [(''Country'', Str ''USA''), (''Languages'', NaN)]] \<rparr>,
       schema = [\<lparr> s_column = ''Country'', s_question_text = ''Where?'', s_type = ''SC'' \<rparr>,
                 \<lparr> s_column = ''Languages'', s_question_text = ''Which?'', s_type = ''MC'' \<rparr>] \<rparr> ''Country'' s_type = Inr ''SC''
   \<and> schema_lookup \<lparr> raw_data = \<lparr> columns = [''Country'', ''Languages''],
       rows = [[(''Country'', Str ''USA''), (''Languages'', Str ''Python;Java'')],
               [(''Country'', Str ''UK''), (''Languages'', Str ''Go'')],
               [(''Country'', Str ''USA''), (''Languages'', NaN)]] \<rparr>,
       schema = [\<lparr> s_column = ''Country'', s_question_text = ''Where?'', s_type = ''SC'' \<rparr>,
                 \<lparr> s_column = ''Languages'', s_question_text = ''Which?'', s_type = ''MC'' \<rparr>] \<rparr> ''Languages'' s_type = Inr ''MC''
   \<and> has_str_accessor (df_col \<lparr> columns = [''Country'', ''Languages''],
       rows = [[(''Country'', Str ''USA''), (''Languages'', Str ''Python;Java'')],
               [(''Country'', Str ''UK''), (''Languages'', Str ''Go'')],
               [(''Country'', Str ''USA''), (''Languages'', NaN)]] \<rparr> ''Languages'')
   \<and> create_subset literal_engine (new_analyzer \<lparr> columns = [''Country'', ''Languages''],
       rows = [[(''Country'', Str ''USA''), (''Languages'', Str ''Python;Java'')],
               [(''Country'', Str ''UK''), (''Languages'', Str ''Go'')],
               [(''Country'', Str ''USA''), (''Languages'', NaN)]] \<rparr>) ''Languages'' ''python''
       = Inr \<lparr> columns = [''Country'', ''Languages''],
       rows = [[(''Country'', Str ''USA''), (''Languages'', Str ''Python;Java'')]] \<rparr>
   \<and> create_subset literal_engine (new_analyzer \<lparr> columns = [''Country'', ''Languages''],
       rows = [[(''Country'', Str ''USA''), (''Languages'', Str ''Python;Java'')],
               [(''Country'', Str ''UK''), (''Languages'', Str ''Go'')],
               [(''Country'', Str ''USA''), (''Languages'', NaN)]] \<rparr>) ''Country'' ''USA''
       = Inr \<lparr> columns = [''Country'', ''Languages''],
       rows = [[(''Country'', Str ''USA''), (''Languages'', Str ''Python;Java'')],
               [(''Country'', Str ''USA''), (''Languages'', NaN)]] \<rparr>
   \<and> subset_respondents literal_engine \<lparr> raw_data = \<lparr> columns = [''Country'', ''Languages''],
       rows = [[(''Country'', Str ''USA''), (''Languages'', Str ''Python;Java'')],
               [(''Country'', Str ''UK''), (''Languages'', Str ''Go'')],
               [(''Country'', Str ''USA''), (''Languages'', NaN)]] \<rparr>,
       schema = [\<lparr> s_column = ''Country'', s_question_text = ''Where?'', s_type = ''SC'' \<rparr>,
                 \<lparr> s_column = ''Languages'', s_question_text = ''Which?'', s_type = ''MC'' \<rparr>] \<rparr> ''Country'' ''USA''
       = Inr \<lparr> columns = [''Country'', ''Languages''],
       rows = [[(''Country'', Str ''USA''), (''Languages'', Str ''Python;Java'')],
               [(''Country'', Str ''USA''), (''Languages'', NaN)]] \<rparr>
   \<and> subset_respondents literal_engine \<lparr> raw_data = \<lparr> columns = [''Country'', ''Languages''],
       rows = [[(''Country'', Str ''USA''), (''Languages'', Str ''Python;Java'')],
               [(''Country'', Str ''UK''), (''Languages'', Str ''Go'')],
               [(''Country'', Str ''USA''), (''Languages'', NaN)]] \<rparr>,
       schema = [\<lparr> s_column = ''Country'', s_question_text = ''Where?'', s_type = ''SC'' \<rparr>,
                 \<lparr> s_column = ''Languages'', s_question_text = ''Which?'', s_type = ''MC'' \<rparr>] \<rparr> ''Languages'' ''Java''
       = Inr \<lparr> columns = [''Country'', ''Languages''],
       rows = [[(''Country'', Str ''USA''), (''Languages'', Str ''Python;Java'')]] \<rparr>"
proof -
  let ?D = "\<lparr> columns = [''Country'', ''Languages''],
       rows = [[(''Country'', Str ''USA''), (''Languages'', Str ''Python;Java'')],
               [(''Country'', Str ''UK''), (''Languages'', Str ''Go'')],
               [(''Country'', Str ''USA''), (''Languages'', NaN)]] \<rparr>"
  let ?S = "\<lparr> raw_data = \<lparr> columns = [''Country'', ''Languages''],
       rows = [[(''Country'', Str ''USA''), (''Languages'', Str ''Python;Java'')],
               [(''Country'', Str ''UK''), (''Languages'', Str ''Go'')],
               [(''Country'', Str ''USA''), (''Languages'', NaN)]] \<rparr>,
       schema = [\<lparr> s_column = ''Country'', s_question_text = ''Where?'', s_type = ''SC'' \<rparr>,
                 \<lparr> s_column = ''Languages'', s_question_text = ''Which?'', s_type = ''MC'' \<rparr>] \<rparr>"
  have mc: "map_of (question_types (new_analyzer ?D)) ''Languages'' = Some MC"
    by code_simp
  have sc: "map_of (question_types (new_analyzer ?D)) ''Country'' \<noteq> Some MC"
    by code_simp
  have lit: "acts_literally literal_engine ''python''" "acts_literally literal_engine ''Java''"
    by (rule literal_engine_acts_literally)+
  have ty: "schema_lookup ?S ''Country'' s_type = Inr ''SC''"
    "schema_lookup ?S ''Languages'' s_type = Inr ''MC''"
    by (simp_all add: schema_lookup_def)
  have acc: "has_str_accessor (df_col ?D ''Languages'')"
    by code_simp
  have ev: "filter (\<lambda>r. case row_get r ''Languages'' of
                          Str s \<Rightarrow> sublist (lower ''python'') (lower s) | _ \<Rightarrow> False) (rows ?D)
            = [[(''Country'', Str ''USA''), (''Languages'', Str ''Python;Java'')]]"
    "filter (\<lambda>r. row_get r ''Country'' = Str ''USA'') (rows ?D)
            = [[(''Country'', Str ''USA''), (''Languages'', Str ''Python;Java'')], [(''Country'', Str ''USA''), (''Languages'', NaN)]]"
    "filter (\<lambda>r. case row_get r ''Languages'' of
                          Str s \<Rightarrow> sublist ''Java'' s | _ \<Rightarrow> False) (rows ?D)
            = [[(''Country'', Str ''USA''), (''Languages'', Str ''Python;Java'')]]"
    by code_simp+
  show ?thesis
    using mc sc lit ty acc ev
      create_subset_rows [of "''Languages''" ?D literal_engine "''python''" "''Country''" ?S "''SC''"]
      create_subset_rows [of "''Country''" ?D literal_engine "''USA''" "''Country''" ?S "''SC''"]
      create_subset_rows [of "''Country''" ?D literal_engine "''Java''" "''Languages''" ?S "''MC''"]
    by simp
qed

section \<open>Truncation to the top entries\<close>

text \<open>
  Claim C5, amended. Let \<open>get_distribution\<close> return a non-empty distribution. For a
  \<open>top_n\<close> of at least 1 and smaller than the number of entries, \<open>display_distribution\<close>
  returns exactly \<open>top_n + 1\<close> rows: the first \<open>top_n\<close> entries, each percentage rounded to
  two decimals, and then the row \<open>Others\<close> with the rounded sum of the remaining
  percentages. For a \<open>top_n\<close> that is not smaller than the number of entries, and for no
  \<open>top_n\<close>, it returns every entry, rounded, and no \<open>Others\<close> row.
\<close>

theorem display_distribution_truncation:
  assumes "get_distribution sa question subset_df = Inr distr" and "distr \<noteq> []"
  shows "(0 < n \<and> n < int (length distr) \<longrightarrow>
            display_distribution sa question subset_df (Some n) =
              Inr (map (\<lambda>(opt, pct). (opt, round2 pct)) (take (nat n) distr)
                   @ [(''Others'', round2 (sum_list (map snd (drop (nat n) distr))))])
          \<and> (\<exists>res. display_distribution sa question subset_df (Some n) = Inr res
                   \<and> int (length res) = n + 1))
       \<and> (int (length distr) \<le> n \<longrightarrow>
            display_distribution sa question subset_df (Some n) = Inr (map (\<lambda>(opt, pct). (opt, round2 pct)) distr))
       \<and> display_distribution sa question subset_df None = Inr (map (\<lambda>(opt, pct). (opt, round2 pct)) distr)"
  using assms
  by (auto simp: display_distribution_def truthy_def slice_to_def slice_from_def Let_def)


text \<open>
  Claim C5, as stated: more entries than \<open>top_n\<close> give \<open>top_n + 1\<close> rows ending in
  \<open>Others\<close>. The source tests \<open>if top_n\<close>, which is false for 0 as for \<open>None\<close>: with
  \<open>top_n = 0\<close> the three entries come back as they are.
\<close>

theorem display_distribution_zero_counterexample:
  "get_distribution (new_analyzer \<lparr> columns = [''Country''],
       rows = [[(''Country'', Str ''USA'')], [(''Country'', Str ''UK'')], [(''Country'', Str ''Canada'')],
               [(''Country'', Str ''USA'')], [(''Country'', Str ''UK'')], [(''Country'', Str ''USA'')],
               [(''Country'', Str ''Canada'')], [(''Country'', Str ''USA'')], [(''Country'', Str ''UK'')],
               [(''Country'', Str ''USA'')]] \<rparr>) ''Country'' None
     = Inr [(''USA'', 50), (''UK'', 30), (''Canada'', 20)]
   \<and> display_distribution (new_analyzer \<lparr> columns = [''Country''],
       rows = [[(''Country'', Str ''USA'')], [(''Country'', Str ''UK'')], [(''Country'', Str ''Canada'')],
               [(''Country'', Str ''USA'')], [(''Country'', Str ''UK'')], [(''Country'', Str ''USA'')],
               [(''Country'', Str ''Canada'')], [(''Country'', Str ''USA'')], [(''Country'', Str ''UK'')],
               [(''Country'', Str ''USA'')]] \<rparr>) ''Country'' None (Some 0)
     = Inr [(''USA'', 50), (''UK'', 30), (''Canada'', 20)]"
  by code_simp

theorem display_distribution_truncation_witness:
  "get_distribution (new_analyzer \<lparr> columns = [''Country''],
       rows = [[(''Country'', Str ''USA'')], [(''Country'', Str ''UK'')], [(''Country'', Str ''Canada'')],
               [(''Country'', Str ''USA'')], [(''Country'', Str ''UK'')], [(''Country'', Str ''USA'')],
               [(''Country'', Str ''Canada'')], [(''Country'', Str ''USA'')], [(''Country'', Str ''UK'')],
               [(''Country'', Str ''USA'')]] \<rparr>) ''Country'' None
     = Inr [(''USA'', 50), (''UK'', 30), (''Canada'', 20)]
   \<and> [(''USA'', 50 :: real), (''UK'', 30), (''Canada'', 20)] \<noteq> []
   \<and> (0 :: int) < 2 \<and> (2 :: int) < int (length [(''USA'', 50 :: real), (''UK'', 30), (''Canada'', 20)])
   \<and> int (length [(''USA'', 50 :: real), (''UK'', 30), (''Canada'', 20)]) \<le> 10
   \<and> display_distribution (new_analyzer \<lparr> columns = [''Country''],
       rows = [[(''Country'', Str ''USA'')], [(''Country'', Str ''UK'')], [(''Country'', Str ''Canada'')],
               [(''Country'', Str ''USA'')], [(''Country'', Str ''UK'')], [(''Country'', Str ''USA'')],
               [(''Country'', Str ''Canada'')], [(''Country'', Str ''USA'')], [(''Country'', Str ''UK'')],
               [(''Country'', Str ''USA'')]] \<rparr>) ''Country'' None (Some 2)
     = Inr [(''USA'', 50), (''UK'', 30), (''Others'', 20)]
   \<and> display_distribution (new_analyzer \<lparr> columns = [''Country''],
       rows = [[(''Country'', Str ''USA'')], [(''Country'', Str ''UK'')], [(''Country'', Str ''Canada'')],
               [(''Country'', Str ''USA'')], [(''Country'', Str ''UK'')], [(''Country'', Str ''USA'')],
               [(''Country'', Str ''Canada'')], [(''Country'', Str ''USA'')], [(''Country'', Str ''UK'')],
               [(''Country'', Str ''USA'')]] \<rparr>) ''Country'' None (Some 10)
     = Inr [(''USA'', 50), (''UK'', 30), (''Canada'', 20)]
   \<and> display_distribution (new_analyzer \<lparr> columns = [''Country''],
       rows = [[(''Country'', Str ''USA'')], [(''Country'', Str ''UK'')], [(''Country'', Str ''Canada'')],
               [(''Country'', Str ''USA'')], [(''Country'', Str ''UK'')], [(''Country'', Str ''USA'')],
               [(''Country'', Str ''Canada'')], [(''Country'', Str ''USA'')], [(''Country'', Str ''UK'')],
               [(''Country'', Str ''USA'')]] \<rparr>) ''Country'' None None
     = Inr [(''USA'', 50), (''UK'', 30), (''Canada'', 20)]"
proof -
  let ?sa = "new_analyzer \<lparr> columns = [''Country''],
       rows = [[(''Country'', Str ''USA'')], [(''Country'', Str ''UK'')], [(''Country'', Str ''Canada'')],
               [(''Country'', Str ''USA'')], [(''Country'', Str ''UK'')], [(''Country'', Str ''USA'')],
               [(''Country'', Str ''Canada'')], [(''Country'', Str ''USA'')], [(''Country'', Str ''UK'')],
               [(''Country'', Str ''USA'')]] \<rparr>"
  have g: "get_distribution ?sa ''Country'' None = Inr [(''USA'', 50), (''UK'', 30), (''Canada'', 20)]"
    by code_simp
  have ne: "[(''USA'', 50 :: real), (''UK'', 30), (''Canada'', 20)] \<noteq> []"
    by simp
  have r: "round2 50 = 50" "round2 30 = 30" "round2 20 = 20"
    by (simp_all add: round2_def round_half_even_def)
  show ?thesis
    using g r
      display_distribution_truncation [OF g ne, of 2]
      display_distribution_truncation [OF g ne, of 10]
    by simp
qed

section \<open>Dictionaries and counting loops\<close>

lemma keys_dict_set: "fst ` set (dict_set d k v) = insert k (fst ` set d)"
  by (induction d k v rule: dict_set.induct) auto

lemma dict_set_fresh: "k \<notin> fst ` set d \<Longrightarrow> dict_set d k v = d @ [(k, v)]"
  by (induction d k v rule: dict_set.induct) auto

lemma distinct_dict_set: "distinct (map fst d) \<Longrightarrow> distinct (map fst (dict_set d k v))"
  by (induction d k v rule: dict_set.induct) (auto simp: keys_dict_set)

lemma fold_dict_set_distinct:
  "distinct (map fst (acc @ kvs)) \<Longrightarrow> fold (\<lambda>(k, v) d. dict_set d k v) kvs acc = acc @ kvs"
proof (induction kvs arbitrary: acc)
  case Nil
  then show ?case by simp
next
  case (Cons kv kvs)
  obtain k v where kv: "kv = (k, v)" by (cases kv)
  from Cons.prems kv have fresh: "k \<notin> fst ` set acc" by auto
  from Cons.prems kv have "distinct (map fst ((acc @ [(k, v)]) @ kvs))" by simp
  then have "fold (\<lambda>(k, v) d. dict_set d k v) kvs (acc @ [(k, v)]) = (acc @ [(k, v)]) @ kvs"
    by (rule Cons.IH)
  with fresh kv show ?case by (simp add: dict_set_fresh)
qed

lemma dict_of_items_distinct: "distinct (map fst kvs) \<Longrightarrow> dict_of_items kvs = kvs"
  using fold_dict_set_distinct [of "[]" kvs] by (simp add: dict_of_items_def)

lemma fold_dict_set_keys_distinct:
  "distinct (map fst acc) \<Longrightarrow> distinct (map fst (fold (\<lambda>(k, v) d. dict_set d k v) kvs acc))"
  by (induction kvs arbitrary: acc) (auto simp: distinct_dict_set)

lemma distinct_dict_of_items: "distinct (map fst (dict_of_items kvs))"
  by (simp add: dict_of_items_def fold_dict_set_keys_distinct)

lemma fold_dict_set_subset:
  "set (fold (\<lambda>(k, v) d. dict_set d k v) kvs acc) \<subseteq> set acc \<union> set kvs"
proof (induction kvs arbitrary: acc)
  case Nil
  then show ?case by simp
next
  case (Cons kv kvs)
  obtain k v where kv: "kv = (k, v)" by (cases kv)
  have "set (dict_set acc k v) \<subseteq> insert (k, v) (set acc)"
    by (induction acc k v rule: dict_set.induct) auto
  with Cons.IH [of "dict_set acc k v"] kv show ?case by auto
qed

lemma set_dict_of_items: "set (dict_of_items kvs) \<subseteq> set kvs"
  using fold_dict_set_subset [of kvs "[]"] by (simp add: dict_of_items_def)

lemma map_of_count_option:
  "map_of (count_option counts k) =
     (map_of counts)(k \<mapsto> (case map_of counts k of None \<Rightarrow> 1 | Some n \<Rightarrow> n + 1))"
  by (simp add: count_option_def map_of_dict_set)

lemma map_of_fold_count_option:
  "map_of (fold (\<lambda>k counts. count_option counts k) ks counts) k =
     (case map_of counts k of
        None \<Rightarrow> if k \<in> set ks then Some (count_list ks k) else None
      | Some n \<Rightarrow> Some (n + count_list ks k))"
proof (induction ks arbitrary: counts)
  case Nil
  then show ?case by (simp split: option.splits)
next
  case (Cons a ks)
  show ?case
    by (simp add: Cons.IH map_of_count_option split: option.splits)
qed

lemma distinct_count_option: "distinct (map fst counts) \<Longrightarrow> distinct (map fst (count_option counts k))"
  by (simp add: count_option_def distinct_dict_set)

lemma distinct_fold_count_option:
  "distinct (map fst counts) \<Longrightarrow> distinct (map fst (fold (\<lambda>k counts. count_option counts k) ks counts))"
  by (induction ks arbitrary: counts) (simp_all add: distinct_count_option)

text \<open>What a counting loop over the keys \<open>ks\<close> leaves behind.\<close>

lemma count_loop_entry:
  "(k, n) \<in> set (fold (\<lambda>k counts. count_option counts k) ks []) \<longleftrightarrow>
     k \<in> set ks \<and> n = count_list ks k"
proof -
  let ?c = "fold (\<lambda>k counts. count_option counts k) ks []"
  have d: "distinct (map fst ?c)"
    by (rule distinct_fold_count_option) simp
  have "(k, n) \<in> set ?c \<longleftrightarrow> map_of ?c k = Some n"
    using d by simp
  then show ?thesis
    by (auto simp: map_of_fold_count_option)
qed

lemma count_list_pos: "k \<in> set ks \<Longrightarrow> 0 < count_list ks k"
  by (induction ks) auto

section \<open>Sorting by a key\<close>

lemma distinct_keys_sort_key: "distinct (map fst (sort_key f xs)) = distinct (map fst xs)"
  by (simp add: distinct_map)

lemma sorted_desc_set: "set (sorted_desc xs) = set xs"
  by (simp add: sorted_desc_def)

lemma sorted_desc_distinct: "distinct (map fst (sorted_desc xs)) = distinct (map fst xs)"
  by (simp add: sorted_desc_def distinct_keys_sort_key)

lemma sorted_desc_descending:
  assumes "i < j" and "j < length (sorted_desc xs)"
  shows "snd (sorted_desc xs ! j) \<le> snd (sorted_desc xs ! i)"
proof -
  have "sorted (map (\<lambda>x. - snd x) (sorted_desc xs))"
    by (simp add: sorted_desc_def)
  then have "map (\<lambda>x. - snd x) (sorted_desc xs) ! i \<le> map (\<lambda>x. - snd x) (sorted_desc xs) ! j"
    using assms by (intro sorted_nth_mono) simp_all
  with assms show ?thesis by simp
qed

section \<open>Distributions: the counting passes\<close>

lemma fold_fold_concat: "fold (\<lambda>x. fold f (g x)) xs acc = fold f (concat (map g xs)) acc"
  by (induction xs arbitrary: acc) simp_all

lemma sa_option_counts_pieces:
  "sa_option_counts col = fold (\<lambda>k counts. count_option counts k) (sa_pieces col) []"
proof -
  have inner: "fold (\<lambda>opt counts. count_option counts (strip opt)) xs
               = fold (\<lambda>k counts. count_option counts k) (map strip xs)" for xs :: "string list"
    by (simp add: fold_map comp_def)
  show ?thesis
    unfolding sa_option_counts_def sa_pieces_def inner by (rule fold_fold_concat)
qed

lemma options_count_pieces:
  "options_count col = fold (\<lambda>k counts. count_option counts k) (text_pieces col) []"
proof -
  have step: "(\<lambda>answer counts. case answer of
                  Str s \<Rightarrow> fold (\<lambda>option counts. count_option counts option) (split_on CHR '';'' s) counts
                | _ \<Rightarrow> counts)
              = (\<lambda>answer. fold (\<lambda>k counts. count_option counts k)
                   (case answer of Str s \<Rightarrow> split_on CHR '';'' s | _ \<Rightarrow> []))"
    by (intro ext) (simp split: cell.splits)
  show ?thesis
    unfolding options_count_def text_pieces_def step by (rule fold_fold_concat)
qed

lemma value_counts_entry:
  "(v, n) \<in> set (value_counts col) \<longleftrightarrow> v \<in> set (dropna col) \<and> n = count_list (dropna col) v"
  by (simp add: value_counts_def count_loop_entry)

lemma value_counts_distinct: "distinct (map fst (value_counts col))"
  by (simp add: value_counts_def distinct_keys_sort_key distinct_fold_count_option)

lemma value_counts_descending:
  assumes "i < j" and "j < length (value_counts col)"
  shows "snd (value_counts col ! j) \<le> snd (value_counts col ! i)"
proof -
  have "sorted (map (\<lambda>x. - int (snd x)) (value_counts col))"
    by (simp add: value_counts_def)
  then have "map (\<lambda>x. - int (snd x)) (value_counts col) ! i
             \<le> map (\<lambda>x. - int (snd x)) (value_counts col) ! j"
    using assms by (intro sorted_nth_mono) simp_all
  with assms show ?thesis by simp
qed

lemma dict_of_items_map_values:
  assumes "distinct (map fst kvs)"
  shows "dict_of_items (map (\<lambda>(k, v). (k, f v)) kvs) = map (\<lambda>(k, v). (k, f v)) kvs"
proof -
  have keys: "map fst (map (\<lambda>(k, v). (k, f v)) kvs) = map fst kvs"
    by (induction kvs) auto
  have "distinct (map fst (map (\<lambda>(k, v). (k, f v)) kvs))"
    unfolding keys by (rule assms)
  then show ?thesis
    by (rule dict_of_items_distinct)
qed

text \<open>The result of \<open>get_distribution\<close> is the sorted dictionary itself.\<close>

lemma dict_of_sorted_dict: "dict_of_items (sorted_desc (dict_of_items kvs)) = sorted_desc (dict_of_items kvs)"
  by (simp add: dict_of_items_distinct sorted_desc_distinct distinct_dict_of_items)

section \<open>Percentages of a distribution\<close>

lemma sa_option_counts_entry:
  "(opt, n) \<in> set (sa_option_counts col) \<longleftrightarrow> opt \<in> set (sa_pieces col) \<and> n = count_list (sa_pieces col) opt"
  by (simp add: sa_option_counts_pieces count_loop_entry)

lemma sa_option_counts_distinct: "distinct (map fst (sa_option_counts col))"
  by (simp add: sa_option_counts_pieces distinct_fold_count_option)

lemma options_count_entry:
  "(opt, n) \<in> set (options_count col) \<longleftrightarrow> opt \<in> set (text_pieces col) \<and> n = count_list (text_pieces col) opt"
  by (simp add: options_count_pieces count_loop_entry)

lemma options_count_distinct: "distinct (map fst (options_count col))"
  by (simp add: options_count_pieces distinct_fold_count_option)

text \<open>The entries of \<open>get_distribution\<close>, by the type of the question.\<close>

lemma get_distribution_MC_entries:
  assumes "map_of (question_types sa) question = Some MC"
    and "get_distribution sa question subset_df = Inr distr"
    and "(opt, pct) \<in> set distr"
  shows "\<exists>n. (opt, n) \<in> set (sa_option_counts (df_col (frame_of sa subset_df) question))
             \<and> pct = real n / real (length (dropna (df_col (frame_of sa subset_df) question))) * 100
             \<and> 0 < length (dropna (df_col (frame_of sa subset_df) question))"
proof -
  let ?col = "df_col (frame_of sa subset_df) question"
  let ?total = "length (filter notna ?col)"
  let ?items = "map (\<lambda>(opt, count). (opt, real count / real ?total * 100)) (sa_option_counts ?col)"
  from assms(3) have "distr \<noteq> []" by auto
  with assms(1,2) have total: "?total \<noteq> 0"
    and distr: "distr = dict_of_items (sorted_desc (dict_of_items ?items))"
    by (auto simp: get_distribution_def Let_def split: if_splits)
  have "set distr \<subseteq> set ?items"
    using set_dict_of_items [of "sorted_desc (dict_of_items ?items)"] set_dict_of_items [of ?items]
    by (simp add: distr sorted_desc_set)
  with assms(3) have "(opt, pct) \<in> set ?items" by blast
  with total show ?thesis
    by (auto simp: dropna_def)
qed

lemma get_distribution_SC_entries:
  assumes "map_of (question_types sa) question \<noteq> Some MC"
    and "get_distribution sa question subset_df = Inr distr"
    and "(opt, pct) \<in> set distr"
  shows "\<exists>val n. (val, n) \<in> set (value_counts (df_col (frame_of sa subset_df) question))
             \<and> opt = py_str val
             \<and> pct = real n / real (length (dropna (df_col (frame_of sa subset_df) question))) * 100
             \<and> 0 < length (dropna (df_col (frame_of sa subset_df) question))"
proof -
  let ?col = "df_col (frame_of sa subset_df) question"
  let ?total = "length (filter notna ?col)"
  let ?items = "map (\<lambda>(val, count). (py_str val, real count / real ?total * 100)) (value_counts ?col)"
  from assms(3) have "distr \<noteq> []" by auto
  with assms(1,2) have total: "?total \<noteq> 0"
    and distr: "distr = dict_of_items (sorted_desc (dict_of_items ?items))"
    by (auto simp: get_distribution_def Let_def split: if_splits)
  have "set distr \<subseteq> set ?items"
    using set_dict_of_items [of "sorted_desc (dict_of_items ?items)"] set_dict_of_items [of ?items]
    by (simp add: distr sorted_desc_set)
  with assms(3) have "(opt, pct) \<in> set ?items" by blast
  with total show ?thesis
    by (auto simp: dropna_def)
qed

lemma distribution_sc_entries:
  assumes "distribution_sc data qid = Inr res"
  shows "distribution res =
           map (\<lambda>(option, count). (option, real count / real (length (dropna (df_col (raw_data data) qid))) * 100))
             (value_counts (df_col (raw_data data) qid))"
proof -
  let ?col = "df_col (raw_data data) qid"
  let ?pct = "\<lambda>(option, count). (option, real count / real (length (filter notna ?col)) * 100)"
  from assms have "distribution res = dict_of_items (map ?pct (value_counts ?col))"
    by (auto simp: distribution_sc_def Let_def split: if_splits sum.splits)
  also have "\<dots> = map ?pct (value_counts ?col)"
    by (rule dict_of_items_map_values) (rule value_counts_distinct)
  finally show ?thesis by (simp add: dropna_def)
qed

lemma distribution_mc_entries:
  assumes "distribution_mc data qid = Inr res"
  shows "distribution res =
           map (\<lambda>(option, count). (option, real count / real (length (rows (raw_data data))) * 100))
             (options_count (df_col (raw_data data) qid))"
proof -
  let ?col = "df_col (raw_data data) qid"
  let ?pct = "\<lambda>(option, count). (option, real count / real (length (rows (raw_data data))) * 100)"
  from assms have "distribution res = dict_of_items (map ?pct (options_count ?col))"
    by (auto simp: distribution_mc_def Let_def split: if_splits sum.splits)
  also have "\<dots> = map ?pct (options_count ?col)"
    by (rule dict_of_items_map_values) (rule options_count_distinct)
  finally show ?thesis .
qed

lemma text_pieces_nonempty_rows:
  assumes "opt \<in> set (text_pieces (df_col d col))"
  shows "0 < length (rows d)"
  using assms by (cases "rows d") (simp_all add: text_pieces_def df_col_def dropna_def)

lemma percentage_pos: "0 < n \<Longrightarrow> 0 < m \<Longrightarrow> 0 < real n / real m * 100"
  by simp

text \<open>
  Claim C1, amended. Every percentage is 100 times a count over a denominator.
  In \<open>get_distribution\<close> the denominator is the number of non-null cells of the question in
  the row set, for a multiple-choice question as for any other: for a question typed \<open>MC\<close>
  the count of an option is the number of stripped pieces of the non-null cells equal to
  it, for any other question the entry stands for a non-null value and the count is the
  number of cells holding it. In \<open>distribution_mc\<close> the denominator is the number of rows of
  the raw data, null answers included, and the count is the number of pieces of the text
  cells equal to the option. In \<open>distribution_sc\<close> the denominator is the number of non-null
  cells and the count the number of cells holding the value.
\<close>

theorem distribution_percentages:
  "(map_of (question_types sa) question = Some MC
      \<and> get_distribution sa question subset_df = Inr distr \<and> (opt, pct) \<in> set distr \<longrightarrow>
        pct = 100 * real (count_list (sa_pieces (df_col (frame_of sa subset_df) question)) opt)
                  / real (length (dropna (df_col (frame_of sa subset_df) question))))
   \<and> (map_of (question_types sa) question \<noteq> Some MC
      \<and> get_distribution sa question subset_df = Inr distr \<and> (opt, pct) \<in> set distr \<longrightarrow>
        (\<exists>val \<in> set (dropna (df_col (frame_of sa subset_df) question)).
           opt = py_str val
           \<and> pct = 100 * real (count_list (dropna (df_col (frame_of sa subset_df) question)) val)
                       / real (length (dropna (df_col (frame_of sa subset_df) question)))))
   \<and> (distribution_mc data qid = Inr mc_res \<and> (opt, pct) \<in> set (distribution mc_res) \<longrightarrow>
        pct = 100 * real (count_list (text_pieces (df_col (raw_data data) qid)) opt)
                  / real (length (rows (raw_data data))))
   \<and> (distribution_sc data qid = Inr sc_res \<and> (v, pct) \<in> set (distribution sc_res) \<longrightarrow>
        pct = 100 * real (count_list (dropna (df_col (raw_data data) qid)) v)
                  / real (length (dropna (df_col (raw_data data) qid))))"
proof (intro conjI impI)
  assume "map_of (question_types sa) question = Some MC
      \<and> get_distribution sa question subset_df = Inr distr \<and> (opt, pct) \<in> set distr"
  then show "pct = 100 * real (count_list (sa_pieces (df_col (frame_of sa subset_df) question)) opt)
                  / real (length (dropna (df_col (frame_of sa subset_df) question)))"
    using get_distribution_MC_entries [of sa question subset_df distr opt pct]
    by (auto simp: sa_option_counts_entry)
next
  assume "map_of (question_types sa) question \<noteq> Some MC
      \<and> get_distribution sa question subset_df = Inr distr \<and> (opt, pct) \<in> set distr"
  then show "\<exists>val \<in> set (dropna (df_col (frame_of sa subset_df) question)).
           opt = py_str val
           \<and> pct = 100 * real (count_list (dropna (df_col (frame_of sa subset_df) question)) val)
                       / real (length (dropna (df_col (frame_of sa subset_df) question)))"
    using get_distribution_SC_entries [of sa question subset_df distr opt pct]
    by (auto simp: value_counts_entry)
next
  assume "distribution_mc data qid = Inr mc_res \<and> (opt, pct) \<in> set (distribution mc_res)"
  then show "pct = 100 * real (count_list (text_pieces (df_col (raw_data data) qid)) opt)
                  / real (length (rows (raw_data data)))"
    by (auto simp: distribution_mc_entries options_count_entry)
next
  assume "distribution_sc data qid = Inr sc_res \<and> (v, pct) \<in> set (distribution sc_res)"
  then show "pct = 100 * real (count_list (dropna (df_col (raw_data data) qid)) v)
                  / real (length (dropna (df_col (raw_data data) qid)))"
    by (auto simp: distribution_sc_entries value_counts_entry)
qed

text \<open>
  Claim C10. Every entry of a computed distribution has a strictly positive percentage,
  and its option occurs in a non-null cell of the row set: in \<open>get_distribution\<close>, as a
  stripped piece of a non-null cell for a question typed \<open>MC\<close> and as the string of a
  non-null cell otherwise; in \<open>distribution_mc\<close>, as a piece of a text cell; in
  \<open>distribution_sc\<close>, as a non-null cell.
\<close>

theorem distribution_entries_positive:
  "(get_distribution sa question subset_df = Inr distr \<and> (opt, pct) \<in> set distr \<longrightarrow>
        0 < pct
      \<and> (if map_of (question_types sa) question = Some MC
          then opt \<in> set (sa_pieces (df_col (frame_of sa subset_df) question))
          else \<exists>val \<in> set (df_col (frame_of sa subset_df) question). val \<noteq> NaN \<and> opt = py_str val))
   \<and> (distribution_mc data qid = Inr mc_res \<and> (opt, pct) \<in> set (distribution mc_res) \<longrightarrow>
        0 < pct \<and> opt \<in> set (text_pieces (df_col (raw_data data) qid)))
   \<and> (distribution_sc data qid = Inr sc_res \<and> (v, pct) \<in> set (distribution sc_res) \<longrightarrow>
        0 < pct \<and> v \<in> set (df_col (raw_data data) qid) \<and> v \<noteq> NaN)"
proof -
  have sa_part: "0 < pct
      \<and> (if map_of (question_types sa) question = Some MC
          then opt \<in> set (sa_pieces (df_col (frame_of sa subset_df) question))
          else \<exists>val \<in> set (df_col (frame_of sa subset_df) question). val \<noteq> NaN \<and> opt = py_str val)"
    if a: "get_distribution sa question subset_df = Inr distr" "(opt, pct) \<in> set distr"
  proof (cases "map_of (question_types sa) question = Some MC")
    case True
    with a show ?thesis
      using get_distribution_MC_entries [of sa question subset_df distr opt pct]
      by (auto simp: sa_option_counts_entry count_list_pos)
  next
    case False
    with a show ?thesis
      using get_distribution_SC_entries [of sa question subset_df distr opt pct]
      by (auto simp: value_counts_entry count_list_pos dropna_def notna_def)
  qed
  have mc_part: "0 < pct \<and> opt \<in> set (text_pieces (df_col (raw_data data) qid))"
    if a: "distribution_mc data qid = Inr mc_res" "(opt, pct) \<in> set (distribution mc_res)"
  proof -
    from a obtain n where n: "opt \<in> set (text_pieces (df_col (raw_data data) qid))"
      "n = count_list (text_pieces (df_col (raw_data data) qid)) opt"
      "pct = real n / real (length (rows (raw_data data))) * 100"
      by (auto simp: distribution_mc_entries options_count_entry)
    from n(1) have "0 < length (rows (raw_data data))"
      by (rule text_pieces_nonempty_rows)
    moreover from n have "0 < n" by (simp add: count_list_pos)
    ultimately have "0 < pct"
      unfolding n(3) by (rule percentage_pos [rotated])
    with n(1) show ?thesis by simp
  qed
  have sc_part: "0 < pct \<and> v \<in> set (df_col (raw_data data) qid) \<and> v \<noteq> NaN"
    if a: "distribution_sc data qid = Inr sc_res" "(v, pct) \<in> set (distribution sc_res)"
  proof -
    from a obtain n where n: "v \<in> set (dropna (df_col (raw_data data) qid))"
      "n = count_list (dropna (df_col (raw_data data) qid)) v"
      "pct = real n / real (length (dropna (df_col (raw_data data) qid))) * 100"
      by (auto simp: distribution_sc_entries value_counts_entry)
    from n(1) have "0 < length (dropna (df_col (raw_data data) qid))"
      by (cases "dropna (df_col (raw_data data) qid)") simp_all
    moreover from n have "0 < n" by (simp add: count_list_pos)
    ultimately have "0 < pct"
      unfolding n(3) by (rule percentage_pos [rotated])
    with n(1) show ?thesis by (simp add: dropna_def notna_def)
  qed
  show ?thesis
    using sa_part mc_part sc_part by blast
qed


text \<open>
  Claim C1, as stated: for a multiple-choice question the denominator is the number of rows,
  null cells included. \<open>get_distribution\<close> divides by the number of non-null cells for
  every type: with one answer \<open>A;B\<close> and one null cell, \<open>A\<close> gets 100 percent, where one
  row out of two would be 50.
\<close>

theorem mc_denominator_counterexample:
  "map_of (question_types (new_analyzer \<lparr> columns = [''Langs''],
       rows = [[(''Langs'', Str ''A;B'')], [(''Langs'', NaN)]] \<rparr>)) ''Langs'' = Some MC
   \<and> length (rows \<lparr> columns = [''Langs''],
       rows = [[(''Langs'', Str ''A;B'')], [(''Langs'', NaN)]] \<rparr>) = 2
   \<and> get_distribution (new_analyzer \<lparr> columns = [''Langs''],
       rows = [[(''Langs'', Str ''A;B'')], [(''Langs'', NaN)]] \<rparr>) ''Langs'' None = Inr [(''A'', 100), (''B'', 100)]
   \<and> 100 * real (count_list (sa_pieces (df_col \<lparr> columns = [''Langs''],
       rows = [[(''Langs'', Str ''A;B'')], [(''Langs'', NaN)]] \<rparr> ''Langs'')) ''A'')
        / real (length (rows \<lparr> columns = [''Langs''],
       rows = [[(''Langs'', Str ''A;B'')], [(''Langs'', NaN)]] \<rparr>)) = 50"
  by code_simp

theorem distribution_percentages_witness:
  "map_of (question_types (new_analyzer \<lparr> columns = [''Country'', ''Langs''],
       rows = [[(''Country'', Str ''USA''), (''Langs'', Str ''A;B'')],
               [(''Country'', Str ''UK''), (''Langs'', NaN)],
               [(''Country'', Str ''USA''), (''Langs'', Str ''A'')],
               [(''Country'', Str ''USA''), (''Langs'', NaN)]] \<rparr>)) ''Langs'' = Some MC
   \<and> map_of (question_types (new_analyzer \<lparr> columns = [''Country'', ''Langs''],
       rows = [[(''Country'', Str ''USA''), (''Langs'', Str ''A;B'')],
               [(''Country'', Str ''UK''), (''Langs'', NaN)],
               [(''Country'', Str ''USA''), (''Langs'', Str ''A'')],
               [(''Country'', Str ''USA''), (''Langs'', NaN)]] \<rparr>)) ''Country'' \<noteq> Some MC
   \<and> get_distribution (new_analyzer \<lparr> columns = [''Country'', ''Langs''],
       rows = [[(''Country'', Str ''USA''), (''Langs'', Str ''A;B'')],
               [(''Country'', Str ''UK''), (''Langs'', NaN)],
               [(''Country'', Str ''USA''), (''Langs'', Str ''A'')],
               [(''Country'', Str ''USA''), (''Langs'', NaN)]] \<rparr>) ''Langs'' None = Inr [(''A'', 100), (''B'', 50)]
   \<and> get_distribution (new_analyzer \<lparr> columns = [''Country'', ''Langs''],
       rows = [[(''Country'', Str ''USA''), (''Langs'', Str ''A;B'')],
               [(''Country'', Str ''UK''), (''Langs'', NaN)],
               [(''Country'', Str ''USA''), (''Langs'', Str ''A'')],
               [(''Country'', Str ''USA''), (''Langs'', NaN)]] \<rparr>) ''Country'' None = Inr [(''USA'', 75), (''UK'', 25)]
   \<and> distribution_mc \<lparr> raw_data = \<lparr> columns = [''Country'', ''Langs''],
       rows = [[(''Country'', Str ''USA''), (''Langs'', Str ''A;B'')],
               [(''Country'', Str ''UK''), (''Langs'', NaN)],
               [(''Country'', Str ''USA''), (''Langs'', Str ''A'')],
               [(''Country'', Str ''USA''), (''Langs'', NaN)]] \<rparr>,
       schema = [\<lparr> s_column = ''Country'', s_question_text = ''Where?'', s_type = ''SC'' \<rparr>,
                 \<lparr> s_column = ''Langs'', s_question_text = ''Which?'', s_type = ''MC'' \<rparr>] \<rparr> ''Langs'' = Inr \<lparr> r_question_id = ''Langs'', r_question_text = ''Which?'',
            distribution = [(''A'', 50), (''B'', 25)] \<rparr>
   \<and> distribution_sc \<lparr> raw_data = \<lparr> columns = [''Country'', ''Langs''],
       rows = [[(''Country'', Str ''USA''), (''Langs'', Str ''A;B'')],
               [(''Country'', Str ''UK''), (''Langs'', NaN)],
               [(''Country'', Str ''USA''), (''Langs'', Str ''A'')],
               [(''Country'', Str ''USA''), (''Langs'', NaN)]] \<rparr>,
       schema = [\<lparr> s_column = ''Country'', s_question_text = ''Where?'', s_type = ''SC'' \<rparr>,
                 \<lparr> s_column = ''Langs'', s_question_text = ''Which?'', s_type = ''MC'' \<rparr>] \<rparr> ''Country'' = Inr \<lparr> r_question_id = ''Country'', r_question_text = ''Where?'',
            distribution = [(Str ''USA'', 75), (Str ''UK'', 25)] \<rparr>
   \<and> (50 :: real) = 100 * real (count_list (sa_pieces (df_col (frame_of (new_analyzer \<lparr> columns = [''Country'', ''Langs''],
       rows = [[(''Country'', Str ''USA''), (''Langs'', Str ''A;B'')],
               [(''Country'', Str ''UK''), (''Langs'', NaN)],
               [(''Country'', Str ''USA''), (''Langs'', Str ''A'')],
               [(''Country'', Str ''USA''), (''Langs'', NaN)]] \<rparr>) None) ''Langs'')) ''B'') / real (length (dropna (df_col (frame_of (new_analyzer \<lparr> columns = [''Country'', ''Langs''],
       rows = [[(''Country'', Str ''USA''), (''Langs'', Str ''A;B'')],
               [(''Country'', Str ''UK''), (''Langs'', NaN)],
               [(''Country'', Str ''USA''), (''Langs'', Str ''A'')],
               [(''Country'', Str ''USA''), (''Langs'', NaN)]] \<rparr>) None) ''Langs'')))
   \<and> (\<exists>val \<in> set (dropna (df_col (frame_of (new_analyzer \<lparr> columns = [''Country'', ''Langs''],
       rows = [[(''Country'', Str ''USA''), (''Langs'', Str ''A;B'')],
               [(''Country'', Str ''UK''), (''Langs'', NaN)],
               [(''Country'', Str ''USA''), (''Langs'', Str ''A'')],
               [(''Country'', Str ''USA''), (''Langs'', NaN)]] \<rparr>) None) ''Country'')). ''UK'' = py_str val \<and> (25 :: real) = 100 * real (count_list (dropna (df_col (frame_of (new_analyzer \<lparr> columns = [''Country'', ''Langs''],
       rows = [[(''Country'', Str ''USA''), (''Langs'', Str ''A;B'')],
               [(''Country'', Str ''UK''), (''Langs'', NaN)],
               [(''Country'', Str ''USA''), (''Langs'', Str ''A'')],
               [(''Country'', Str ''USA''), (''Langs'', NaN)]] \<rparr>) None) ''Country'')) val) / real (length (dropna (df_col (frame_of (new_analyzer \<lparr> columns = [''Country'', ''Langs''],
       rows = [[(''Country'', Str ''USA''), (''Langs'', Str ''A;B'')],
               [(''Country'', Str ''UK''), (''Langs'', NaN)],
               [(''Country'', Str ''USA''), (''Langs'', Str ''A'')],
               [(''Country'', Str ''USA''), (''Langs'', NaN)]] \<rparr>) None) ''Country''))))
   \<and> (25 :: real) = 100 * real (count_list (text_pieces (df_col (raw_data \<lparr> raw_data = \<lparr> columns = [''Country'', ''Langs''],
       rows = [[(''Country'', Str ''USA''), (''Langs'', Str ''A;B'')],
               [(''Country'', Str ''UK''), (''Langs'', NaN)],
               [(''Country'', Str ''USA''), (''Langs'', Str ''A'')],
               [(''Country'', Str ''USA''), (''Langs'', NaN)]] \<rparr>,
       schema = [\<lparr> s_column = ''Country'', s_question_text = ''Where?'', s_type = ''SC'' \<rparr>,
                 \<lparr> s_column = ''Langs'', s_question_text = ''Which?'', s_type = ''MC'' \<rparr>] \<rparr>) ''Langs'')) ''B'') / real (length (rows (raw_data \<lparr> raw_data = \<lparr> columns = [''Country'', ''Langs''],
       rows = [[(''Country'', Str ''USA''), (''Langs'', Str ''A;B'')],
               [(''Country'', Str ''UK''), (''Langs'', NaN)],
               [(''Country'', Str ''USA''), (''Langs'', Str ''A'')],
               [(''Country'', Str ''USA''), (''Langs'', NaN)]] \<rparr>,
       schema = [\<lparr> s_column = ''Country'', s_question_text = ''Where?'', s_type = ''SC'' \<rparr>,
                 \<lparr> s_column = ''Langs'', s_question_text = ''Which?'', s_type = ''MC'' \<rparr>] \<rparr>)))
   \<and> (75 :: real) = 100 * real (count_list (dropna (df_col (raw_data \<lparr> raw_data = \<lparr> columns = [''Country'', ''Langs''],
       rows = [[(''Country'', Str ''USA''), (''Langs'', Str ''A;B'')],
               [(''Country'', Str ''UK''), (''Langs'', NaN)],
               [(''Country'', Str ''USA''), (''Langs'', Str ''A'')],
               [(''Country'', Str ''USA''), (''Langs'', NaN)]] \<rparr>,
       schema = [\<lparr> s_column = ''Country'', s_question_text = ''Where?'', s_type = ''SC'' \<rparr>,
                 \<lparr> s_column = ''Langs'', s_question_text = ''Which?'', s_type = ''MC'' \<rparr>] \<rparr>) ''Country'')) (Str ''USA'')) / real (length (dropna (df_col (raw_data \<lparr> raw_data = \<lparr> columns = [''Country'', ''Langs''],
       rows = [[(''Country'', Str ''USA''), (''Langs'', Str ''A;B'')],
               [(''Country'', Str ''UK''), (''Langs'', NaN)],
               [(''Country'', Str ''USA''), (''Langs'', Str ''A'')],
               [(''Country'', Str ''USA''), (''Langs'', NaN)]] \<rparr>,
       schema = [\<lparr> s_column = ''Country'', s_question_text = ''Where?'', s_type = ''SC'' \<rparr>,
                 \<lparr> s_column = ''Langs'', s_question_text = ''Which?'', s_type = ''MC'' \<rparr>] \<rparr>) ''Country'')))"
proof -
  let ?D = "\<lparr> columns = [''Country'', ''Langs''],
       rows = [[(''Country'', Str ''USA''), (''Langs'', Str ''A;B'')],
               [(''Country'', Str ''UK''), (''Langs'', NaN)],
               [(''Country'', Str ''USA''), (''Langs'', Str ''A'')],
               [(''Country'', Str ''USA''), (''Langs'', NaN)]] \<rparr>"
  let ?sa = "new_analyzer ?D"
  let ?S = "\<lparr> raw_data = \<lparr> columns = [''Country'', ''Langs''],
       rows = [[(''Country'', Str ''USA''), (''Langs'', Str ''A;B'')],
               [(''Country'', Str ''UK''), (''Langs'', NaN)],
               [(''Country'', Str ''USA''), (''Langs'', Str ''A'')],
               [(''Country'', Str ''USA''), (''Langs'', NaN)]] \<rparr>,
       schema = [\<lparr> s_column = ''Country'', s_question_text = ''Where?'', s_type = ''SC'' \<rparr>,
                 \<lparr> s_column = ''Langs'', s_question_text = ''Which?'', s_type = ''MC'' \<rparr>] \<rparr>"
  let ?mc = "\<lparr> r_question_id = ''Langs'', r_question_text = ''Which?'',
            distribution = [(''A'', 50), (''B'', 25)] \<rparr>"
  let ?sc = "\<lparr> r_question_id = ''Country'', r_question_text = ''Where?'',
            distribution = [(Str ''USA'', 75), (Str ''UK'', 25)] \<rparr>"
  have mc: "map_of (question_types ?sa) ''Langs'' = Some MC"
    by code_simp
  have sc: "map_of (question_types ?sa) ''Country'' \<noteq> Some MC"
    by code_simp
  have g1: "get_distribution ?sa ''Langs'' None = Inr [(''A'', 100), (''B'', 50)]"
    by code_simp
  have g2: "get_distribution ?sa ''Country'' None = Inr [(''USA'', 75), (''UK'', 25)]"
    by code_simp
  have g3: "distribution_mc ?S ''Langs'' = Inr ?mc"
    by code_simp
  have g4: "distribution_sc ?S ''Country'' = Inr ?sc"
    by code_simp
  have c1: "(50 :: real) = 100 * real (count_list (sa_pieces (df_col (frame_of ?sa None) ''Langs'')) ''B'') / real (length (dropna (df_col (frame_of ?sa None) ''Langs'')))"
    using mc g1
      distribution_percentages [where sa = ?sa and question = "''Langs''" and subset_df = None
        and distr = "[(''A'', 100), (''B'', 50)]" and opt = "''B''" and pct = 50]
    by simp
  have c2: "(\<exists>val \<in> set (dropna (df_col (frame_of ?sa None) ''Country'')). ''UK'' = py_str val \<and> (25 :: real) = 100 * real (count_list (dropna (df_col (frame_of ?sa None) ''Country'')) val) / real (length (dropna (df_col (frame_of ?sa None) ''Country''))))"
    using sc g2
      distribution_percentages [where sa = ?sa and question = "''Country''" and subset_df = None
        and distr = "[(''USA'', 75), (''UK'', 25)]" and opt = "''UK''" and pct = 25]
    by simp
  have c3: "(25 :: real) = 100 * real (count_list (text_pieces (df_col (raw_data ?S) ''Langs'')) ''B'') / real (length (rows (raw_data ?S)))"
    using g3
      distribution_percentages [where data = ?S and qid = "''Langs''" and mc_res = ?mc
        and opt = "''B''" and pct = 25]
    by simp
  have c4: "(75 :: real) = 100 * real (count_list (dropna (df_col (raw_data ?S) ''Country'')) (Str ''USA'')) / real (length (dropna (df_col (raw_data ?S) ''Country'')))"
    using g4
      distribution_percentages [where data = ?S and qid = "''Country''" and sc_res = ?sc
        and v = "Str ''USA''" and pct = 75]
    by simp
  show ?thesis
    using mc sc g1 g2 g3 g4 c1 c2 c3 c4 by blast
qed


theorem distribution_entries_positive_witness:
  "map_of (question_types (new_analyzer \<lparr> columns = [''Country'', ''Langs''],
       rows = [[(''Country'', Str ''USA''), (''Langs'', Str ''A;B'')],
               [(''Country'', Str ''UK''), (''Langs'', NaN)],
               [(''Country'', Str ''USA''), (''Langs'', Str ''A'')],
               [(''Country'', Str ''USA''), (''Langs'', NaN)]] \<rparr>)) ''Langs'' = Some MC
   \<and> map_of (question_types (new_analyzer \<lparr> columns = [''Country'', ''Langs''],
       rows = [[(''Country'', Str ''USA''), (''Langs'', Str ''A;B'')],
               [(''Country'', Str ''UK''), (''Langs'', NaN)],
               [(''Country'', Str ''USA''), (''Langs'', Str ''A'')],
               [(''Country'', Str ''USA''), (''Langs'', NaN)]] \<rparr>)) ''Country'' \<noteq> Some MC
   \<and> get_distribution (new_analyzer \<lparr> columns = [''Country'', ''Langs''],
       rows = [[(''Country'', Str ''USA''), (''Langs'', Str ''A;B'')],
               [(''Country'', Str ''UK''), (''Langs'', NaN)],
               [(''Country'', Str ''USA''), (''Langs'', Str ''A'')],
               [(''Country'', Str ''USA''), (''Langs'', NaN)]] \<rparr>) ''Langs'' None = Inr [(''A'', 100), (''B'', 50)]
   \<and> get_distribution (new_analyzer \<lparr> columns = [''Country'', ''Langs''],
       rows = [[(''Country'', Str ''USA''), (''Langs'', Str ''A;B'')],
               [(''Country'', Str ''UK''), (''Langs'', NaN)],
               [(''Country'', Str ''USA''), (''Langs'', Str ''A'')],
               [(''Country'', Str ''USA''), (''Langs'', NaN)]] \<rparr>) ''Country'' None = Inr [(''USA'', 75), (''UK'', 25)]
   \<and> distribution_mc \<lparr> raw_data = \<lparr> columns = [''Country'', ''Langs''],
       rows = [[(''Country'', Str ''USA''), (''Langs'', Str ''A;B'')],
               [(''Country'', Str ''UK''), (''Langs'', NaN)],
               [(''Country'', Str ''USA''), (''Langs'', Str ''A'')],
               [(''Country'', Str ''USA''), (''Langs'', NaN)]] \<rparr>,
       schema = [\<lparr> s_column = ''Country'', s_question_text = ''Where?'', s_type = ''SC'' \<rparr>,
                 \<lparr> s_column = ''Langs'', s_question_text = ''Which?'', s_type = ''MC'' \<rparr>] \<rparr> ''Langs'' = Inr \<lparr> r_question_id = ''Langs'', r_question_text = ''Which?'',
            distribution = [(''A'', 50), (''B'', 25)] \<rparr>
   \<and> distribution_sc \<lparr> raw_data = \<lparr> columns = [''Country'', ''Langs''],
       rows = [[(''Country'', Str ''USA''), (''Langs'', Str ''A;B'')],
               [(''Country'', Str ''UK''), (''Langs'', NaN)],
               [(''Country'', Str ''USA''), (''Langs'', Str ''A'')],
               [(''Country'', Str ''USA''), (''Langs'', NaN)]] \<rparr>,
       schema = [\<lparr> s_column = ''Country'', s_question_text = ''Where?'', s_type = ''SC'' \<rparr>,
                 \<lparr> s_column = ''Langs'', s_question_text = ''Which?'', s_type = ''MC'' \<rparr>] \<rparr> ''Country'' = Inr \<lparr> r_question_id = ''Country'', r_question_text = ''Where?'',
            distribution = [(Str ''USA'', 75), (Str ''UK'', 25)] \<rparr>
   \<and> (0 :: real) < 50 \<and> ''B'' \<in> set (sa_pieces (df_col (frame_of (new_analyzer \<lparr> columns = [''Country'', ''Langs''],
       rows = [[(''Country'', Str ''USA''), (''Langs'', Str ''A;B'')],
               [(''Country'', Str ''UK''), (''Langs'', NaN)],
               [(''Country'', Str ''USA''), (''Langs'', Str ''A'')],
               [(''Country'', Str ''USA''), (''Langs'', NaN)]] \<rparr>) None) ''Langs''))
   \<and> (0 :: real) < 25 \<and> (\<exists>val \<in> set (df_col (frame_of (new_analyzer \<lparr> columns = [''Country'', ''Langs''],
       rows = [[(''Country'', Str ''USA''), (''Langs'', Str ''A;B'')],
               [(''Country'', Str ''UK''), (''Langs'', NaN)],
               [(''Country'', Str ''USA''), (''Langs'', Str ''A'')],
               [(''Country'', Str ''USA''), (''Langs'', NaN)]] \<rparr>) None) ''Country''). val \<noteq> NaN \<and> ''UK'' = py_str val)
   \<and> (0 :: real) < 25 \<and> ''B'' \<in> set (text_pieces (df_col (raw_data \<lparr> raw_data = \<lparr> columns = [''Country'', ''Langs''],
       rows = [[(''Country'', Str ''USA''), (''Langs'', Str ''A;B'')],
               [(''Country'', Str ''UK''), (''Langs'', NaN)],
               [(''Country'', Str ''USA''), (''Langs'', Str ''A'')],
               [(''Country'', Str ''USA''), (''Langs'', NaN)]] \<rparr>,
       schema = [\<lparr> s_column = ''Country'', s_question_text = ''Where?'', s_type = ''SC'' \<rparr>,
                 \<lparr> s_column = ''Langs'', s_question_text = ''Which?'', s_type = ''MC'' \<rparr>] \<rparr>) ''Langs''))
   \<and> (0 :: real) < 75 \<and> Str ''USA'' \<in> set (df_col (raw_data \<lparr> raw_data = \<lparr> columns = [''Country'', ''Langs''],
       rows = [[(''Country'', Str ''USA''), (''Langs'', Str ''A;B'')],
               [(''Country'', Str ''UK''), (''Langs'', NaN)],
               [(''Country'', Str ''USA''), (''Langs'', Str ''A'')],
               [(''Country'', Str ''USA''), (''Langs'', NaN)]] \<rparr>,
       schema = [\<lparr> s_column = ''Country'', s_question_text = ''Where?'', s_type = ''SC'' \<rparr>,
                 \<lparr> s_column = ''Langs'', s_question_text = ''Which?'', s_type = ''MC'' \<rparr>] \<rparr>) ''Country'') \<and> Str ''USA'' \<noteq> NaN"
proof -
  let ?D = "\<lparr> columns = [''Country'', ''Langs''],
       rows = [[(''Country'', Str ''USA''), (''Langs'', Str ''A;B'')],
               [(''Country'', Str ''UK''), (''Langs'', NaN)],
               [(''Country'', Str ''USA''), (''Langs'', Str ''A'')],
               [(''Country'', Str ''USA''), (''Langs'', NaN)]] \<rparr>"
  let ?sa = "new_analyzer ?D"
  let ?S = "\<lparr> raw_data = \<lparr> columns = [''Country'', ''Langs''],
       rows = [[(''Country'', Str ''USA''), (''Langs'', Str ''A;B'')],
               [(''Country'', Str ''UK''), (''Langs'', NaN)],
               [(''Country'', Str ''USA''), (''Langs'', Str ''A'')],
               [(''Country'', Str ''USA''), (''Langs'', NaN)]] \<rparr>,
       schema = [\<lparr> s_column = ''Country'', s_question_text = ''Where?'', s_type = ''SC'' \<rparr>,
                 \<lparr> s_column = ''Langs'', s_question_text = ''Which?'', s_type = ''MC'' \<rparr>] \<rparr>"
  let ?mc = "\<lparr> r_question_id = ''Langs'', r_question_text = ''Which?'',
            distribution = [(''A'', 50), (''B'', 25)] \<rparr>"
  let ?sc = "\<lparr> r_question_id = ''Country'', r_question_text = ''Where?'',
            distribution = [(Str ''USA'', 75), (Str ''UK'', 25)] \<rparr>"
  have mc: "map_of (question_types ?sa) ''Langs'' = Some MC"
    by code_simp
  have sc: "map_of (question_types ?sa) ''Country'' \<noteq> Some MC"
    by code_simp
  have g1: "get_distribution ?sa ''Langs'' None = Inr [(''A'', 100), (''B'', 50)]"
    by code_simp
  have g2: "get_distribution ?sa ''Country'' None = Inr [(''USA'', 75), (''UK'', 25)]"
    by code_simp
  have g3: "distribution_mc ?S ''Langs'' = Inr ?mc"
    by code_simp
  have g4: "distribution_sc ?S ''Country'' = Inr ?sc"
    by code_simp
  have c1: "(0 :: real) < 50 \<and> ''B'' \<in> set (sa_pieces (df_col (frame_of ?sa None) ''Langs''))"
    using mc g1
      distribution_entries_positive [where sa = ?sa and question = "''Langs''" and subset_df = None
        and distr = "[(''A'', 100), (''B'', 50)]" and opt = "''B''" and pct = 50]
    by simp
  have c2: "(0 :: real) < 25 \<and> (\<exists>val \<in> set (df_col (frame_of ?sa None) ''Country''). val \<noteq> NaN \<and> ''UK'' = py_str val)"
    using sc g2
      distribution_entries_positive [where sa = ?sa and question = "''Country''" and subset_df = None
        and distr = "[(''USA'', 75), (''UK'', 25)]" and opt = "''UK''" and pct = 25]
    by simp
  have c3: "(0 :: real) < 25 \<and> ''B'' \<in> set (text_pieces (df_col (raw_data ?S) ''Langs''))"
    using g3
      distribution_entries_positive [where data = ?S and qid = "''Langs''" and mc_res = ?mc
        and opt = "''B''" and pct = 25]
    by simp
  have c4: "(0 :: real) < 75 \<and> Str ''USA'' \<in> set (df_col (raw_data ?S) ''Country'') \<and> Str ''USA'' \<noteq> NaN"
    using g4
      distribution_entries_positive [where data = ?S and qid = "''Country''" and sc_res = ?sc
        and v = "Str ''USA''" and pct = 75]
    by simp
  show ?thesis
    using mc sc g1 g2 g3 g4 c1 c2 c3 c4 by blast
qed

section \<open>Order of a distribution\<close>

lemma keys_list_dict_set:
  "map fst (dict_set d k v) = (if k \<in> fst ` set d then map fst d else map fst d @ [k])"
  by (induction d k v rule: dict_set.induct) auto

lemma keys_fold_count_option:
  "map fst (fold (\<lambda>k counts. count_option counts k) ks counts)
     = map fst counts @ filter (\<lambda>k. k \<notin> fst ` set counts) (unique ks)"
proof (induction ks arbitrary: counts)
  case Nil
  show ?case by simp
next
  case (Cons a ks)
  show ?case
  proof (cases "a \<in> fst ` set counts")
    case True
    then have keys: "map fst (count_option counts a) = map fst counts"
      by (simp add: count_option_def keys_list_dict_set)
    then have "fst ` set (count_option counts a) = fst ` set counts"
      by (metis list.set_map)
    moreover have "filter (\<lambda>k. k \<notin> fst ` set counts) (filter (\<lambda>y. y \<noteq> a) (unique ks))
                   = filter (\<lambda>k. k \<notin> fst ` set counts) (unique ks)"
      using True by (auto intro: filter_cong)
    ultimately show ?thesis
      using True by (simp add: Cons.IH keys)
  next
    case False
    then have keys: "map fst (count_option counts a) = map fst counts @ [a]"
      by (simp add: count_option_def keys_list_dict_set)
    then have "fst ` set (count_option counts a) = insert a (fst ` set counts)"
      by (metis list.set_map set_append list.simps(15) Un_insert_right sup_bot.right_neutral empty_set)
    moreover have "filter (\<lambda>k. k \<notin> insert a (fst ` set counts)) (unique ks)
                   = filter (\<lambda>k. k \<notin> fst ` set counts) (filter (\<lambda>y. y \<noteq> a) (unique ks))"
      by (auto intro: filter_cong)
    ultimately show ?thesis
      using False by (simp add: Cons.IH keys)
  qed
qed

lemma distribution_mc_keys:
  assumes "distribution_mc data qid = Inr res"
  shows "map fst (distribution res) = unique (text_pieces (df_col (raw_data data) qid))"
proof -
  have "map fst (distribution res) = map fst (options_count (df_col (raw_data data) qid))"
    unfolding distribution_mc_entries [OF assms]
    by (induction "options_count (df_col (raw_data data) qid)") (auto simp: case_prod_unfold)
  then show ?thesis
    using keys_fold_count_option [of "text_pieces (df_col (raw_data data) qid)" "[]"]
    by (simp add: options_count_pieces)
qed

text \<open>
  Claim C4, amended. The entries that \<open>get_distribution\<close> returns are in descending order
  of percentage: an entry never has a smaller percentage than a later one (so any two
  consecutive entries are in order). The same holds for the dictionary of
  \<open>distribution_sc\<close>, which keeps the order of \<open>value_counts\<close>, and for the order
  \<open>sorted_dist\<close> in which the library's command line prints a distribution. The dictionary
  that \<open>distribution_mc\<close> returns has its options in the order in which the counting loop
  first meets them.
\<close>

theorem distribution_order:
  "(get_distribution sa question subset_df = Inr distr \<and> i < j \<and> j < length distr \<longrightarrow>
       snd (distr ! j) \<le> snd (distr ! i))
   \<and> (distribution_sc data qid = Inr res \<and> i < j \<and> j < length (distribution res) \<longrightarrow>
       snd (distribution res ! j) \<le> snd (distribution res ! i))
   \<and> (i < j \<and> j < length (sorted_dist mc_res) \<longrightarrow>
       snd (sorted_dist mc_res ! j) \<le> snd (sorted_dist mc_res ! i))
   \<and> (distribution_mc data qid = Inr mc_res \<longrightarrow>
       map fst (distribution mc_res) = unique (text_pieces (df_col (raw_data data) qid)))"
proof (intro conjI impI)
  assume a: "get_distribution sa question subset_df = Inr distr \<and> i < j \<and> j < length distr"
  then have "distr = [] \<or> (\<exists>kvs. distr = sorted_desc (dict_of_items kvs))"
    by (auto simp: get_distribution_def Let_def dict_of_sorted_dict split: if_splits)
  with a show "snd (distr ! j) \<le> snd (distr ! i)"
    by (auto simp: sorted_desc_descending)
next
  assume a: "distribution_sc data qid = Inr res \<and> i < j \<and> j < length (distribution res)"
  let ?col = "df_col (raw_data data) qid"
  let ?total = "length (filter notna ?col)"
  let ?pct = "\<lambda>(option, count). (option, real count / real ?total * 100)"
  from a have "distribution res = dict_of_items (map ?pct (value_counts ?col))"
    by (auto simp: distribution_sc_def Let_def split: if_splits sum.splits)
  also have "\<dots> = map ?pct (value_counts ?col)"
    by (rule dict_of_items_map_values) (rule value_counts_distinct)
  finally have d: "distribution res = map ?pct (value_counts ?col)" .
  from a d have j: "j < length (value_counts ?col)" and ij: "i < j"
    by simp_all
  then have "snd (value_counts ?col ! j) \<le> snd (value_counts ?col ! i)"
    by (intro value_counts_descending)
  then have "real (snd (value_counts ?col ! j)) / real ?total * 100
             \<le> real (snd (value_counts ?col ! i)) / real ?total * 100"
    by (simp add: divide_right_mono)
  with d j ij show "snd (distribution res ! j) \<le> snd (distribution res ! i)"
    by (simp add: case_prod_unfold)
next
  assume "i < j \<and> j < length (sorted_dist mc_res)"
  then show "snd (sorted_dist mc_res ! j) \<le> snd (sorted_dist mc_res ! i)"
    by (simp add: sorted_dist_def sorted_desc_descending)
next
  assume "distribution_mc data qid = Inr mc_res"
  then show "map fst (distribution mc_res) = unique (text_pieces (df_col (raw_data data) qid))"
    by (rule distribution_mc_keys)
qed


text \<open>
  Claim C4, as stated: every computed distribution is sorted by descending percentage.
  \<open>distribution_mc\<close> returns its dictionary in the order of first appearance: here \<open>X\<close>
  with 25 percent comes before \<open>Y\<close> with 75.
\<close>

theorem distribution_mc_order_counterexample:
  "distribution_mc \<lparr> raw_data = \<lparr> columns = [''Q1'', ''Q2''],
                     rows = [[(''Q1'', Str ''A''), (''Q2'', Str ''X'')],
                             [(''Q1'', Str ''B''), (''Q2'', Str ''Y;Z'')],
                             [(''Q1'', Str ''B''), (''Q2'', Str ''Y'')],
                             [(''Q1'', Str ''B''), (''Q2'', Str ''Y'')]] \<rparr>,
         schema = [\<lparr> s_column = ''Q1'', s_question_text = ''Which one?'', s_type = ''SC'' \<rparr>,
                   \<lparr> s_column = ''Q2'', s_question_text = ''Which ones?'', s_type = ''MC'' \<rparr>] \<rparr> ''Q2''
     = Inr \<lparr> r_question_id = ''Q2'', r_question_text = ''Which ones?'',
            distribution = [(''X'', 25), (''Y'', 75), (''Z'', 25)] \<rparr>
   \<and> snd ([(''X'', 25 :: real), (''Y'', 75), (''Z'', 25)] ! 0) < snd ([(''X'', 25 :: real), (''Y'', 75), (''Z'', 25)] ! 1)"
  by code_simp

theorem distribution_order_witness:
  "get_distribution (new_analyzer \<lparr> columns = [''Country''],
       rows = [[(''Country'', Str ''USA'')], [(''Country'', Str ''UK'')], [(''Country'', Str ''Canada'')],
               [(''Country'', Str ''USA'')], [(''Country'', Str ''UK'')], [(''Country'', Str ''USA'')],
               [(''Country'', Str ''Canada'')], [(''Country'', Str ''USA'')], [(''Country'', Str ''UK'')],
               [(''Country'', Str ''USA'')]] \<rparr>) ''Country'' None
     = Inr [(''USA'', 50), (''UK'', 30), (''Canada'', 20)]
   \<and> distribution_sc \<lparr> raw_data = \<lparr> columns = [''Q1'', ''Q2''],
                     rows = [[(''Q1'', Str ''A''), (''Q2'', Str ''X'')],
                             [(''Q1'', Str ''B''), (''Q2'', Str ''Y;Z'')],
                             [(''Q1'', Str ''B''), (''Q2'', Str ''Y'')],
                             [(''Q1'', Str ''B''), (''Q2'', Str ''Y'')]] \<rparr>,
         schema = [\<lparr> s_column = ''Q1'', s_question_text = ''Which one?'', s_type = ''SC'' \<rparr>,
                   \<lparr> s_column = ''Q2'', s_question_text = ''Which ones?'', s_type = ''MC'' \<rparr>] \<rparr> ''Q1''
     = Inr \<lparr> r_question_id = ''Q1'', r_question_text = ''Which one?'',
            distribution = [(Str ''B'', 75), (Str ''A'', 25)] \<rparr>
   \<and> sorted_dist \<lparr> r_question_id = ''Q2'', r_question_text = ''Which ones?'',
            distribution = [(''X'', 25), (''Y'', 75), (''Z'', 25)] \<rparr> = [(''Y'', 75), (''X'', 25), (''Z'', 25)]
   \<and> (0 :: nat) < 1
   \<and> 1 < length [(''USA'', 50 :: real), (''UK'', 30), (''Canada'', 20)]
   \<and> 1 < length (distribution \<lparr> r_question_id = ''Q1'', r_question_text = ''Which one?'',
            distribution = [(Str ''B'', 75), (Str ''A'', 25)] \<rparr>)
   \<and> 1 < length (sorted_dist \<lparr> r_question_id = ''Q2'', r_question_text = ''Which ones?'',
            distribution = [(''X'', 25), (''Y'', 75), (''Z'', 25)] \<rparr>)
   \<and> snd ([(''USA'', 50 :: real), (''UK'', 30), (''Canada'', 20)] ! 1)
       \<le> snd ([(''USA'', 50 :: real), (''UK'', 30), (''Canada'', 20)] ! 0)
   \<and> snd (distribution \<lparr> r_question_id = ''Q1'', r_question_text = ''Which one?'',
            distribution = [(Str ''B'', 75), (Str ''A'', 25)] \<rparr> ! 1)
       \<le> snd (distribution \<lparr> r_question_id = ''Q1'', r_question_text = ''Which one?'',
            distribution = [(Str ''B'', 75), (Str ''A'', 25)] \<rparr> ! 0)
   \<and> snd (sorted_dist \<lparr> r_question_id = ''Q2'', r_question_text = ''Which ones?'',
            distribution = [(''X'', 25), (''Y'', 75), (''Z'', 25)] \<rparr> ! 1)
       \<le> snd (sorted_dist \<lparr> r_question_id = ''Q2'', r_question_text = ''Which ones?'',
            distribution = [(''X'', 25), (''Y'', 75), (''Z'', 25)] \<rparr> ! 0)
   \<and> distribution_mc \<lparr> raw_data = \<lparr> columns = [''Q1'', ''Q2''],
                     rows = [[(''Q1'', Str ''A''), (''Q2'', Str ''X'')],
                             [(''Q1'', Str ''B''), (''Q2'', Str ''Y;Z'')],
                             [(''Q1'', Str ''B''), (''Q2'', Str ''Y'')],
                             [(''Q1'', Str ''B''), (''Q2'', Str ''Y'')]] \<rparr>,
         schema = [\<lparr> s_column = ''Q1'', s_question_text = ''Which one?'', s_type = ''SC'' \<rparr>,
                   \<lparr> s_column = ''Q2'', s_question_text = ''Which ones?'', s_type = ''MC'' \<rparr>] \<rparr> ''Q2''
       = Inr \<lparr> r_question_id = ''Q2'', r_question_text = ''Which ones?'',
            distribution = [(''X'', 25), (''Y'', 75), (''Z'', 25)] \<rparr>
   \<and> map fst (distribution \<lparr> r_question_id = ''Q2'', r_question_text = ''Which ones?'',
            distribution = [(''X'', 25), (''Y'', 75), (''Z'', 25)] \<rparr>)
       = unique (text_pieces (df_col (raw_data \<lparr> raw_data = \<lparr> columns = [''Q1'', ''Q2''],
                     rows = [[(''Q1'', Str ''A''), (''Q2'', Str ''X'')],
                             [(''Q1'', Str ''B''), (''Q2'', Str ''Y;Z'')],
                             [(''Q1'', Str ''B''), (''Q2'', Str ''Y'')],
                             [(''Q1'', Str ''B''), (''Q2'', Str ''Y'')]] \<rparr>,
         schema = [\<lparr> s_column = ''Q1'', s_question_text = ''Which one?'', s_type = ''SC'' \<rparr>,
                   \<lparr> s_column = ''Q2'', s_question_text = ''Which ones?'', s_type = ''MC'' \<rparr>] \<rparr>) ''Q2''))"
proof -
  let ?sa = "new_analyzer \<lparr> columns = [''Country''],
       rows = [[(''Country'', Str ''USA'')], [(''Country'', Str ''UK'')], [(''Country'', Str ''Canada'')],
               [(''Country'', Str ''USA'')], [(''Country'', Str ''UK'')], [(''Country'', Str ''USA'')],
               [(''Country'', Str ''Canada'')], [(''Country'', Str ''USA'')], [(''Country'', Str ''UK'')],
               [(''Country'', Str ''USA'')]] \<rparr>"
  let ?S = "\<lparr> raw_data = \<lparr> columns = [''Q1'', ''Q2''],
                     rows = [[(''Q1'', Str ''A''), (''Q2'', Str ''X'')],
                             [(''Q1'', Str ''B''), (''Q2'', Str ''Y;Z'')],
                             [(''Q1'', Str ''B''), (''Q2'', Str ''Y'')],
                             [(''Q1'', Str ''B''), (''Q2'', Str ''Y'')]] \<rparr>,
         schema = [\<lparr> s_column = ''Q1'', s_question_text = ''Which one?'', s_type = ''SC'' \<rparr>,
                   \<lparr> s_column = ''Q2'', s_question_text = ''Which ones?'', s_type = ''MC'' \<rparr>] \<rparr>"
  let ?sc = "\<lparr> r_question_id = ''Q1'', r_question_text = ''Which one?'',
            distribution = [(Str ''B'', 75), (Str ''A'', 25)] \<rparr>"
  let ?mc = "\<lparr> r_question_id = ''Q2'', r_question_text = ''Which ones?'',
            distribution = [(''X'', 25), (''Y'', 75), (''Z'', 25)] \<rparr>"
  have g: "get_distribution ?sa ''Country'' None = Inr [(''USA'', 50), (''UK'', 30), (''Canada'', 20)]"
    by code_simp
  have sc: "distribution_sc ?S ''Q1'' = Inr ?sc"
    by code_simp
  have mc: "sorted_dist ?mc = [(''Y'', 75), (''X'', 25), (''Z'', 25)]"
    by code_simp
  have len: "1 < length [(''USA'', 50 :: real), (''UK'', 30), (''Canada'', 20)]"
    "1 < length (distribution ?sc)" "1 < length (sorted_dist ?mc)"
    by (simp_all add: mc)
  from distribution_order
         [of ?sa "''Country''" None "[(''USA'', 50), (''UK'', 30), (''Canada'', 20)]" 0 1 ?S "''Q1''" ?sc ?mc]
       g sc len
  have "snd ([(''USA'', 50 :: real), (''UK'', 30), (''Canada'', 20)] ! 1)
          \<le> snd ([(''USA'', 50 :: real), (''UK'', 30), (''Canada'', 20)] ! 0)
        \<and> snd (distribution ?sc ! 1) \<le> snd (distribution ?sc ! 0)
        \<and> snd (sorted_dist ?mc ! 1) \<le> snd (sorted_dist ?mc ! 0)"
    by simp
  moreover have dmc: "distribution_mc ?S ''Q2'' = Inr ?mc"
    by code_simp
  moreover from distribution_order [where data = ?S and qid = "''Q2''" and mc_res = ?mc] dmc
  have "map fst (distribution ?mc) = unique (text_pieces (df_col (raw_data ?S) ''Q2''))"
    by simp
  ultimately show ?thesis
    using g sc mc len by simp
qed

section \<open>Option strings of multiple-choice questions\<close>

lemma set_unique: "set (unique xs) = set xs"
  by (induction xs) auto

lemma last_dropWhile: "dropWhile P xs \<noteq> [] \<Longrightarrow> last (dropWhile P xs) = last xs"
  by (induction xs) (auto split: if_splits)

text \<open>A stripped string neither begins nor ends with white space.\<close>

lemma strip_trimmed:
  assumes "strip s \<noteq> []"
  shows "\<not> isspace (hd (strip s)) \<and> \<not> isspace (last (strip s))"
proof -
  let ?t = "dropWhile isspace s"
  let ?u = "dropWhile isspace (rev ?t)"
  from assms have u: "?u \<noteq> []" by (simp add: strip_def)
  have t: "?t \<noteq> []"
  proof
    assume e: "?t = []"
    have "?u = []" unfolding e by simp
    with u show False by contradiction
  qed
  from u have "\<not> isspace (hd ?u)" by (rule hd_dropWhile)
  then have at_end: "\<not> isspace (last (strip s))"
    using u by (simp add: strip_def last_rev)
  from u have "last ?u = last (rev ?t)" by (rule last_dropWhile)
  also have "\<dots> = hd ?t" using t by (simp add: last_rev)
  finally have "hd (strip s) = hd ?t"
    using u by (simp add: strip_def hd_rev)
  moreover from t have "\<not> isspace (hd ?t)" by (rule hd_dropWhile)
  ultimately show ?thesis using at_end by simp
qed

lemma sa_pieces_member:
  "opt \<in> set (sa_pieces col) \<longleftrightarrow>
     (\<exists>val \<in> set (dropna col). \<exists>piece \<in> set (split_on CHR '';'' (py_str val)). opt = strip piece)"
  by (auto simp: sa_pieces_def)

lemma text_pieces_member:
  "opt \<in> set (text_pieces col) \<longleftrightarrow> (\<exists>s. Str s \<in> set col \<and> opt \<in> set (split_on CHR '';'' s))"
  by (auto simp: text_pieces_def dropna_def notna_def split: cell.splits)

lemma sa_pieces_trimmed:
  assumes "opt \<in> set (sa_pieces col)" and "opt \<noteq> []"
  shows "\<not> isspace (hd opt) \<and> \<not> isspace (last opt)"
  using assms by (auto simp: sa_pieces_member strip_trimmed)

lemma mc_options_pieces: "set (mc_options col) = set (sa_pieces col)"
  by (simp add: mc_options_def sa_pieces_def set_unique)

lemma search_options_members:
  assumes "search_options data qid query = Inr opts" and "c \<in> set opts"
  shows "(c \<in> set (df_col (raw_data data) qid) \<and> c \<noteq> NaN)
         \<or> (\<exists>s. Str s \<in> set (df_col (raw_data data) qid) \<and> c \<in> Str ` set (split_on CHR '';'' s))"
proof -
  let ?col = "df_col (raw_data data) qid"
  let ?options = "unique (dropna ?col)"
  let ?split = "unique (concat (map (\<lambda>opt. if has_semicolon opt
                                                then map Str (split_on CHR '';'' (py_str opt))
                                                else [opt]) ?options))"
  let ?options1 = "if list_ex has_semicolon ?options then ?split else ?options"
  from assms have "c \<in> set ?options1"
    by (auto simp: search_options_def Let_def split: if_splits option.splits)
  then consider "c \<in> set ?options" | "c \<in> set ?split"
    by (auto split: if_splits)
  then show ?thesis
  proof cases
    case 1
    then show ?thesis by (simp add: set_unique dropna_def notna_def)
  next
    case 2
    then obtain opt where opt: "opt \<in> set (dropna ?col)"
      and c: "c \<in> set (if has_semicolon opt then map Str (split_on CHR '';'' (py_str opt)) else [opt])"
      by (auto simp: set_unique)
    show ?thesis
    proof (cases "has_semicolon opt")
      case True
      then obtain s where "opt = Str s" by (cases opt) (simp_all add: has_semicolon_def)
      with True opt c show ?thesis by (auto simp: dropna_def)
    next
      case False
      with opt c show ?thesis by (simp add: dropna_def notna_def)
    qed
  qed
qed

lemma split_on_trailing:
  "last (split_on sep (s @ [sep])) = [] \<and> 2 \<le> length (split_on sep (s @ [sep]))"
proof (induction s)
  case Nil
  show ?case by simp
next
  case (Cons c cs)
  show ?case
  proof (cases "c = sep")
    case True
    with Cons show ?thesis by (cases "split_on sep (cs @ [sep])") auto
  next
    case False
    from Cons obtain f g fs where "split_on sep (cs @ [sep]) = f # g # fs"
      by (cases "split_on sep (cs @ [sep])"; cases "tl (split_on sep (cs @ [sep]))") auto
    with Cons False show ?thesis by auto
  qed
qed

lemma split_on_trailing_empty: "[] \<in> set (split_on sep (s @ [sep]))"
proof -
  have "split_on sep (s @ [sep]) \<noteq> []"
    using split_on_trailing [of sep s] by auto
  then have "last (split_on sep (s @ [sep])) \<in> set (split_on sep (s @ [sep]))"
    by (rule last_in_set)
  then show ?thesis by (simp add: split_on_trailing)
qed

lemma strip_Nil: "strip [] = []"
  by (simp add: strip_def)

lemma sa_option_counts_keys: "map fst (sa_option_counts col) = unique (sa_pieces col)"
  using keys_fold_count_option [of "sa_pieces col" "[]"] by (simp add: sa_option_counts_pieces)

lemma keys_of_percentages: "map fst (map (\<lambda>(k, v). (k, f v)) kvs) = map fst kvs"
  by (induction kvs) auto

text \<open>The options of \<open>get_distribution\<close> for a question typed \<open>MC\<close> are all the pieces.\<close>

lemma get_distribution_MC_keys:
  assumes "map_of (question_types sa) question = Some MC"
    and "get_distribution sa question subset_df = Inr distr"
  shows "set (map fst distr) = set (sa_pieces (df_col (frame_of sa subset_df) question))"
proof (cases "dropna (df_col (frame_of sa subset_df) question) = []")
  case True
  with assms have "distr = []"
    by (auto simp: get_distribution_def Let_def dropna_def split: if_splits)
  with True show ?thesis by (simp add: sa_pieces_def)
next
  case False
  let ?col = "df_col (frame_of sa subset_df) question"
  let ?f = "\<lambda>count. real count / real (length (filter notna ?col)) * 100"
  let ?items = "map (\<lambda>(opt, count). (opt, ?f count)) (sa_option_counts ?col)"
  from False have "length (filter notna ?col) \<noteq> 0" by (simp add: dropna_def)
  with assms have "distr = dict_of_items (sorted_desc (dict_of_items ?items))"
    by (auto simp: get_distribution_def Let_def split: if_splits)
  also have "\<dots> = sorted_desc (dict_of_items ?items)"
    by (rule dict_of_sorted_dict)
  also have "dict_of_items ?items = ?items"
    by (rule dict_of_items_map_values) (rule sa_option_counts_distinct)
  finally have "set (map fst distr) = set (map fst ?items)"
    by (simp only: set_map sorted_desc_set)
  also have "map fst ?items = map fst (sa_option_counts ?col)"
    by (rule keys_of_percentages)
  finally show ?thesis
    by (simp only: sa_option_counts_keys set_unique)
qed

lemma sa_search_options_MC:
  assumes "map_of (question_types sa) question = Some MC"
    and "question \<in> set (columns (df sa))"
  shows "sa_search_options sa question keyword =
           Inr (sort (filter (\<lambda>opt. sublist (lower keyword) (lower opt))
                        (unique (sa_pieces (df_col (df sa) question)))))"
  using assms by (simp add: sa_search_options_def Let_def mc_options_def sa_pieces_def)

text \<open>The cells that the library's \<open>search_options\<close> returns when no query is given.\<close>

lemma search_options_all:
  assumes "search_options data qid None = Inr cells"
  shows "set cells =
           {c \<in> set (df_col (raw_data data) qid). c \<noteq> NaN \<and> \<not> has_semicolon c}
           \<union> {Str piece | s piece. Str s \<in> set (df_col (raw_data data) qid)
                 \<and> CHR '';'' \<in> set s \<and> piece \<in> set (split_on CHR '';'' s)}"
    (is "_ = ?plain \<union> ?split")
proof -
  let ?col = "df_col (raw_data data) qid"
  let ?options = "unique (dropna ?col)"
  have semi: "has_semicolon c \<longleftrightarrow> (\<exists>s. c = Str s \<and> CHR '';'' \<in> set s)" for c
    by (cases c) (simp_all add: has_semicolon_def)
  show ?thesis
  proof (cases "list_ex has_semicolon ?options")
    case True
    with assms have "cells = unique (concat (map (\<lambda>opt. if has_semicolon opt
                                                then map Str (split_on CHR '';'' (py_str opt))
                                                else [opt]) ?options))"
      by (auto simp: search_options_def Let_def split: if_splits)
    then have mem: "c \<in> set cells \<longleftrightarrow>
        (\<exists>opt \<in> set (dropna ?col).
           (has_semicolon opt \<and> c \<in> Str ` set (split_on CHR '';'' (py_str opt)))
           \<or> (\<not> has_semicolon opt \<and> c = opt))" for c
      by (auto simp: set_unique split: if_splits)
    show ?thesis
    proof (intro set_eqI iffI)
      fix c
      assume "c \<in> set cells"
      then obtain opt where opt: "opt \<in> set (dropna ?col)"
        and c: "(has_semicolon opt \<and> c \<in> Str ` set (split_on CHR '';'' (py_str opt)))
                \<or> (\<not> has_semicolon opt \<and> c = opt)"
        unfolding mem by blast
      from opt have in_col: "opt \<in> set ?col" "opt \<noteq> NaN"
        by (simp_all add: dropna_def notna_def)
      from c show "c \<in> ?plain \<union> ?split"
      proof
        assume a: "has_semicolon opt \<and> c \<in> Str ` set (split_on CHR '';'' (py_str opt))"
        then obtain s where s: "opt = Str s" "CHR '';'' \<in> set s" unfolding semi by blast
        with a in_col have "c \<in> ?split" by auto
        then show ?thesis by blast
      next
        assume "\<not> has_semicolon opt \<and> c = opt"
        with in_col have "c \<in> ?plain" by simp
        then show ?thesis by blast
      qed
    next
      fix c
      assume "c \<in> ?plain \<union> ?split"
      then show "c \<in> set cells"
      proof
        assume "c \<in> ?plain"
        then have "c \<in> set (dropna ?col)" "\<not> has_semicolon c"
          by (simp_all add: dropna_def notna_def)
        then show ?thesis unfolding mem by blast
      next
        assume "c \<in> ?split"
        then obtain s piece where sp: "c = Str piece" "Str s \<in> set ?col"
          "CHR '';'' \<in> set s" "piece \<in> set (split_on CHR '';'' s)"
          by blast
        then have "Str s \<in> set (dropna ?col)" "has_semicolon (Str s)"
          by (simp_all add: dropna_def notna_def has_semicolon_def)
        moreover from sp have "c \<in> Str ` set (split_on CHR '';'' (py_str (Str s)))"
          by simp
        ultimately show ?thesis unfolding mem by blast
      qed
    qed
  next
    case False
    with assms have c: "cells = ?options"
      by (auto simp: search_options_def Let_def split: if_splits)
    from False have e: "?split = {}"
      by (auto simp: list_ex_iff set_unique semi dropna_def notna_def)
    from False have p: "?plain = set (dropna ?col)"
      by (auto simp: list_ex_iff set_unique dropna_def notna_def)
    have "set cells = set (dropna ?col)"
      unfolding c by (rule set_unique)
    also have "\<dots> = ?plain \<union> {}"
      unfolding p by simp
    finally show ?thesis
      unfolding e .
  qed
qed

text \<open>
  Claim C3, amended. For a question typed \<open>MC\<close>, the options of \<open>get_distribution\<close> are
  exactly the pieces of the non-null cells, split at the semicolons and stripped; none is
  left out, so an answer that ends in a semicolon gives the empty option, and an option
  that is not empty neither begins nor ends with white space.
  \<open>SurveyAnalyzer.search_options\<close> returns exactly those of these pieces that hold the
  keyword, each once, sorted. In the schema-driven library the options of
  \<open>distribution_mc\<close> are exactly the pieces of the text cells as they are, each once, in the
  order in which they are first met, and \<open>search_options\<close> without a query returns exactly
  the non-null cells that hold no semicolon and the pieces, as they are, of the text cells
  that hold one: nothing is stripped and nothing dropped.
\<close>

theorem mc_option_strings:
  "(map_of (question_types sa) question = Some MC
      \<and> get_distribution sa question subset_df = Inr distr \<longrightarrow>
        set (map fst distr) = set (sa_pieces (df_col (frame_of sa subset_df) question)))
   \<and> (map_of (question_types sa) question = Some MC \<and> question \<in> set (columns (df sa)) \<longrightarrow>
        sa_search_options sa question keyword =
          Inr (sort (filter (\<lambda>opt. sublist (lower keyword) (lower opt))
                       (unique (sa_pieces (df_col (df sa) question))))))
   \<and> (opt \<in> set (sa_pieces col) \<longleftrightarrow>
        (\<exists>val \<in> set (dropna col). \<exists>piece \<in> set (split_on CHR '';'' (py_str val)). opt = strip piece))
   \<and> (opt \<in> set (sa_pieces col) \<and> opt \<noteq> [] \<longrightarrow> \<not> isspace (hd opt) \<and> \<not> isspace (last opt))
   \<and> (Str (s @ '';'') \<in> set col \<longrightarrow> [] \<in> set (sa_pieces col) \<and> [] \<in> set (text_pieces col))
   \<and> (distribution_mc data qid = Inr mc_res \<longrightarrow>
        map fst (distribution mc_res) = unique (text_pieces (df_col (raw_data data) qid)))
   \<and> (opt \<in> set (text_pieces col) \<longleftrightarrow> (\<exists>s. Str s \<in> set col \<and> opt \<in> set (split_on CHR '';'' s)))
   \<and> (search_options data qid None = Inr cells \<longrightarrow>
        set cells =
          {c \<in> set (df_col (raw_data data) qid). c \<noteq> NaN \<and> \<not> has_semicolon c}
          \<union> {Str piece | s piece. Str s \<in> set (df_col (raw_data data) qid)
                \<and> CHR '';'' \<in> set s \<and> piece \<in> set (split_on CHR '';'' s)})"
proof -
  have kept: "[] \<in> set (sa_pieces col) \<and> [] \<in> set (text_pieces col)"
    if a: "Str (s @ '';'') \<in> set col"
  proof -
    have e: "[] \<in> set (split_on CHR '';'' (s @ '';''))"
      by (rule split_on_trailing_empty)
    from a have n: "Str (s @ '';'') \<in> set (dropna col)"
      by (simp add: dropna_def notna_def)
    from e have "strip [] \<in> strip ` set (split_on CHR '';'' (py_str (Str (s @ '';''))))"
      by (intro imageI) simp
    with n have "[] \<in> set (sa_pieces col)"
      unfolding sa_pieces_member strip_Nil by blast
    moreover from a e have "[] \<in> set (text_pieces col)"
      unfolding text_pieces_member by blast
    ultimately show ?thesis ..
  qed
  have p1: "map_of (question_types sa) question = Some MC
      \<and> get_distribution sa question subset_df = Inr distr \<longrightarrow>
        set (map fst distr) = set (sa_pieces (df_col (frame_of sa subset_df) question))"
    using get_distribution_MC_keys [of sa question subset_df distr] by blast
  have p2: "map_of (question_types sa) question = Some MC \<and> question \<in> set (columns (df sa)) \<longrightarrow>
        sa_search_options sa question keyword =
          Inr (sort (filter (\<lambda>opt. sublist (lower keyword) (lower opt))
                       (unique (sa_pieces (df_col (df sa) question)))))"
    using sa_search_options_MC [of sa question keyword] by blast
  have p4: "opt \<in> set (sa_pieces col) \<and> opt \<noteq> [] \<longrightarrow> \<not> isspace (hd opt) \<and> \<not> isspace (last opt)"
    using sa_pieces_trimmed [of opt col] by blast
  have p5: "Str (s @ '';'') \<in> set col \<longrightarrow> [] \<in> set (sa_pieces col) \<and> [] \<in> set (text_pieces col)"
    using kept by blast
  have p6: "distribution_mc data qid = Inr mc_res \<longrightarrow>
        map fst (distribution mc_res) = unique (text_pieces (df_col (raw_data data) qid))"
    using distribution_mc_keys [of data qid mc_res] by blast
  have p8: "search_options data qid None = Inr cells \<longrightarrow>
        set cells =
          {c \<in> set (df_col (raw_data data) qid). c \<noteq> NaN \<and> \<not> has_semicolon c}
          \<union> {Str piece | s piece. Str s \<in> set (df_col (raw_data data) qid)
                \<and> CHR '';'' \<in> set s \<and> piece \<in> set (split_on CHR '';'' s)}"
    by (rule impI) (rule search_options_all)
  show ?thesis
    by (intro conjI p1 p2 p4 p5 p6 p8 sa_pieces_member text_pieces_member)
qed

text \<open>
  Claim C3, as stated: options are trimmed and empty fragments never appear. The answer
  \<open>A;\<close> gives \<open>get_distribution\<close> and \<open>SurveyAnalyzer.search_options\<close> the empty option,
  and the answer \<open>A; B\<close> gives \<open>distribution_mc\<close> an option that begins with a space.
\<close>

theorem empty_option_counterexample:
  "map_of (question_types (new_analyzer \<lparr> columns = [''Langs''], rows = [[(''Langs'', Str ''A;'')]] \<rparr>)) ''Langs'' = Some MC
   \<and> get_distribution (new_analyzer \<lparr> columns = [''Langs''], rows = [[(''Langs'', Str ''A;'')]] \<rparr>) ''Langs'' None
       = Inr [(''A'', 100), ([], 100)]
   \<and> sa_search_options (new_analyzer \<lparr> columns = [''Langs''], rows = [[(''Langs'', Str ''A;'')]] \<rparr>) ''Langs'' [] = Inr [[], ''A'']
   \<and> distribution_mc \<lparr> raw_data = \<lparr> columns = [''Langs''], rows = [[(''Langs'', Str ''A; B'')]] \<rparr>,
          schema = [\<lparr> s_column = ''Langs'', s_question_text = ''Which?'', s_type = ''MC'' \<rparr>] \<rparr> ''Langs''
       = Inr \<lparr> r_question_id = ''Langs'', r_question_text = ''Which?'',
               distribution = [(''A'', 100), ('' B'', 100)] \<rparr>
   \<and> isspace (hd '' B'')"
  by code_simp

theorem mc_option_strings_witness:
  "map_of (question_types (new_analyzer \<lparr> columns = [''Langs''],
       rows = [[(''Langs'', Str '' Python ; Java;'')], [(''Langs'', NaN)]] \<rparr>)) ''Langs'' = Some MC
   \<and> ''Langs'' \<in> set (columns (df (new_analyzer \<lparr> columns = [''Langs''],
       rows = [[(''Langs'', Str '' Python ; Java;'')], [(''Langs'', NaN)]] \<rparr>)))
   \<and> get_distribution (new_analyzer \<lparr> columns = [''Langs''],
       rows = [[(''Langs'', Str '' Python ; Java;'')], [(''Langs'', NaN)]] \<rparr>) ''Langs'' None = Inr [(''Python'', 100), (''Java'', 100), ([], 100)]
   \<and> sa_search_options (new_analyzer \<lparr> columns = [''Langs''],
       rows = [[(''Langs'', Str '' Python ; Java;'')], [(''Langs'', NaN)]] \<rparr>) ''Langs'' ''java'' = Inr [''Java'']
   \<and> distribution_mc \<lparr> raw_data = \<lparr> columns = [''Langs''],
       rows = [[(''Langs'', Str '' Python ; Java;'')], [(''Langs'', NaN)]] \<rparr>,
       schema = [\<lparr> s_column = ''Langs'', s_question_text = ''Which?'', s_type = ''MC'' \<rparr>] \<rparr> ''Langs'' = Inr \<lparr> r_question_id = ''Langs'', r_question_text = ''Which?'',
            distribution = [('' Python '', 50), ('' Java'', 50), ([], 50)] \<rparr>
   \<and> search_options \<lparr> raw_data = \<lparr> columns = [''Langs''],
       rows = [[(''Langs'', Str '' Python ; Java;'')], [(''Langs'', NaN)]] \<rparr>,
       schema = [\<lparr> s_column = ''Langs'', s_question_text = ''Which?'', s_type = ''MC'' \<rparr>] \<rparr> ''Langs'' None = Inr [Str '' Python '', Str '' Java'', Str []]
   \<and> Str ('' Python ; Java'' @ '';'') \<in> set (df_col \<lparr> columns = [''Langs''],
       rows = [[(''Langs'', Str '' Python ; Java;'')], [(''Langs'', NaN)]] \<rparr> ''Langs'')
   \<and> ''Python'' \<in> set (sa_pieces (df_col \<lparr> columns = [''Langs''],
       rows = [[(''Langs'', Str '' Python ; Java;'')], [(''Langs'', NaN)]] \<rparr> ''Langs'')) \<and> ''Python'' \<noteq> []
   \<and> set (map fst [(''Python'', 100 :: real), (''Java'', 100), ([], 100)]) = set (sa_pieces (df_col (frame_of (new_analyzer \<lparr> columns = [''Langs''],
       rows = [[(''Langs'', Str '' Python ; Java;'')], [(''Langs'', NaN)]] \<rparr>) None) ''Langs''))
   \<and> sa_search_options (new_analyzer \<lparr> columns = [''Langs''],
       rows = [[(''Langs'', Str '' Python ; Java;'')], [(''Langs'', NaN)]] \<rparr>) ''Langs'' ''java'' = Inr (sort (filter (\<lambda>opt. sublist (lower ''java'') (lower opt)) (unique (sa_pieces (df_col (df (new_analyzer \<lparr> columns = [''Langs''],
       rows = [[(''Langs'', Str '' Python ; Java;'')], [(''Langs'', NaN)]] \<rparr>)) ''Langs'')))))
   \<and> \<not> isspace (hd ''Python'') \<and> \<not> isspace (last ''Python'')
   \<and> [] \<in> set (sa_pieces (df_col \<lparr> columns = [''Langs''],
       rows = [[(''Langs'', Str '' Python ; Java;'')], [(''Langs'', NaN)]] \<rparr> ''Langs'')) \<and> [] \<in> set (text_pieces (df_col \<lparr> columns = [''Langs''],
       rows = [[(''Langs'', Str '' Python ; Java;'')], [(''Langs'', NaN)]] \<rparr> ''Langs''))
   \<and> map fst (distribution \<lparr> r_question_id = ''Langs'', r_question_text = ''Which?'',
            distribution = [('' Python '', 50), ('' Java'', 50), ([], 50)] \<rparr>) = unique (text_pieces (df_col (raw_data \<lparr> raw_data = \<lparr> columns = [''Langs''],
       rows = [[(''Langs'', Str '' Python ; Java;'')], [(''Langs'', NaN)]] \<rparr>,
       schema = [\<lparr> s_column = ''Langs'', s_question_text = ''Which?'', s_type = ''MC'' \<rparr>] \<rparr>) ''Langs''))
   \<and> set [Str '' Python '', Str '' Java'', Str []] = {c \<in> set (df_col (raw_data \<lparr> raw_data = \<lparr> columns = [''Langs''],
       rows = [[(''Langs'', Str '' Python ; Java;'')], [(''Langs'', NaN)]] \<rparr>,
       schema = [\<lparr> s_column = ''Langs'', s_question_text = ''Which?'', s_type = ''MC'' \<rparr>] \<rparr>) ''Langs''). c \<noteq> NaN \<and> \<not> has_semicolon c} \<union> {Str piece | s piece. Str s \<in> set (df_col (raw_data \<lparr> raw_data = \<lparr> columns = [''Langs''],
       rows = [[(''Langs'', Str '' Python ; Java;'')], [(''Langs'', NaN)]] \<rparr>,
       schema = [\<lparr> s_column = ''Langs'', s_question_text = ''Which?'', s_type = ''MC'' \<rparr>] \<rparr>) ''Langs'') \<and> CHR '';'' \<in> set s \<and> piece \<in> set (split_on CHR '';'' s)}"
proof -
  let ?D = "\<lparr> columns = [''Langs''],
       rows = [[(''Langs'', Str '' Python ; Java;'')], [(''Langs'', NaN)]] \<rparr>"
  let ?sa = "new_analyzer ?D"
  let ?S = "\<lparr> raw_data = \<lparr> columns = [''Langs''],
       rows = [[(''Langs'', Str '' Python ; Java;'')], [(''Langs'', NaN)]] \<rparr>,
       schema = [\<lparr> s_column = ''Langs'', s_question_text = ''Which?'', s_type = ''MC'' \<rparr>] \<rparr>"
  let ?mc = "\<lparr> r_question_id = ''Langs'', r_question_text = ''Which?'',
            distribution = [('' Python '', 50), ('' Java'', 50), ([], 50)] \<rparr>"
  have mc: "map_of (question_types ?sa) ''Langs'' = Some MC"
    by code_simp
  have qc: "''Langs'' \<in> set (columns (df ?sa))"
    by code_simp
  have g1: "get_distribution ?sa ''Langs'' None = Inr [(''Python'', 100), (''Java'', 100), ([], 100)]"
    by code_simp
  have g2: "sa_search_options ?sa ''Langs'' ''java'' = Inr [''Java'']"
    by code_simp
  have g3: "distribution_mc ?S ''Langs'' = Inr ?mc"
    by code_simp
  have g4: "search_options ?S ''Langs'' None = Inr [Str '' Python '', Str '' Java'', Str []]"
    by code_simp
  have ic: "Str ('' Python ; Java'' @ '';'') \<in> set (df_col ?D ''Langs'')"
    by code_simp
  have pm: "''Python'' \<in> set (sa_pieces (df_col ?D ''Langs'')) \<and> ''Python'' \<noteq> []"
    by code_simp
  have c1: "set (map fst [(''Python'', 100 :: real), (''Java'', 100), ([], 100)]) = set (sa_pieces (df_col (frame_of ?sa None) ''Langs''))"
    by (rule mc_option_strings [where sa = ?sa and question = "''Langs''" and subset_df = None
        and distr = "[(''Python'', 100), (''Java'', 100), ([], 100)]",
          THEN conjunct1, THEN mp, OF conjI [OF mc g1]])
  have c2: "sa_search_options ?sa ''Langs'' ''java'' = Inr (sort (filter (\<lambda>opt. sublist (lower ''java'') (lower opt)) (unique (sa_pieces (df_col (df ?sa) ''Langs'')))))"
    by (rule mc_option_strings [where sa = ?sa and question = "''Langs''" and keyword = "''java''",
          THEN conjunct2, THEN conjunct1, THEN mp, OF conjI [OF mc qc]])
  have c3: "\<not> isspace (hd ''Python'') \<and> \<not> isspace (last ''Python'')"
    by (rule mc_option_strings [where opt = "''Python''" and col = "df_col ?D ''Langs''",
          THEN conjunct2, THEN conjunct2, THEN conjunct2, THEN conjunct1, THEN mp, OF pm])
  have c4: "[] \<in> set (sa_pieces (df_col ?D ''Langs'')) \<and> [] \<in> set (text_pieces (df_col ?D ''Langs''))"
    by (rule mc_option_strings [where s = "'' Python ; Java''" and col = "df_col ?D ''Langs''",
          THEN conjunct2, THEN conjunct2, THEN conjunct2, THEN conjunct2, THEN conjunct1, THEN mp, OF ic])
  have c5: "map fst (distribution ?mc) = unique (text_pieces (df_col (raw_data ?S) ''Langs''))"
    by (rule mc_option_strings [where data = ?S and qid = "''Langs''" and mc_res = ?mc,
          THEN conjunct2, THEN conjunct2, THEN conjunct2, THEN conjunct2, THEN conjunct2, THEN conjunct1, THEN mp, OF g3])
  have c6: "set [Str '' Python '', Str '' Java'', Str []] = {c \<in> set (df_col (raw_data ?S) ''Langs''). c \<noteq> NaN \<and> \<not> has_semicolon c} \<union> {Str piece | s piece. Str s \<in> set (df_col (raw_data ?S) ''Langs'') \<and> CHR '';'' \<in> set s \<and> piece \<in> set (split_on CHR '';'' s)}"
    by (rule mc_option_strings [where data = ?S and qid = "''Langs''" and cells = "[Str '' Python '', Str '' Java'', Str []]",
          THEN conjunct2, THEN conjunct2, THEN conjunct2, THEN conjunct2, THEN conjunct2, THEN conjunct2, THEN conjunct2, THEN mp, OF g4])
  from pm c3 c4 have parts: "''Python'' \<in> set (sa_pieces (df_col ?D ''Langs''))" "''Python'' \<noteq> []"
    "\<not> isspace (hd ''Python'')" "\<not> isspace (last ''Python'')"
    "[] \<in> set (sa_pieces (df_col ?D ''Langs''))" "[] \<in> set (text_pieces (df_col ?D ''Langs''))"
    by blast+
  show ?thesis
    by (intro conjI mc qc g1 g2 g3 g4 ic parts c1 c2 c5 c6)
qed

section \<open>Sum of the percentages of a single-choice question\<close>

lemma count_option_Nil: "count_option [] k = [(k, 1)]"
  by (simp add: count_option_def)

lemma count_option_Cons:
  "count_option ((k', n) # counts) k =
     (if k' = k then (k, n + 1) # counts else (k', n) # count_option counts k)"
  by (simp add: count_option_def)

lemma sum_count_option: "sum_list (map snd (count_option counts k)) = sum_list (map snd counts) + 1"
proof (induction counts)
  case Nil
  show ?case by (simp add: count_option_Nil)
next
  case (Cons kn counts)
  obtain k' n where "kn = (k', n)" by (cases kn)
  with Cons show ?case by (simp add: count_option_Cons)
qed

lemma sum_fold_count_option:
  "sum_list (map snd (fold (\<lambda>k counts. count_option counts k) ks counts))
     = sum_list (map snd counts) + length ks"
  by (induction ks arbitrary: counts) (simp_all add: sum_count_option)

lemma sum_list_insort_key: "sum_list (map h (insort_key f x ys)) = h x + sum_list (map h ys)"
  for h :: "'a \<Rightarrow> 'b::comm_monoid_add"
  by (induction ys) (simp_all add: add.left_commute)

lemma sum_list_sort_key: "sum_list (map h (sort_key f xs)) = sum_list (map h xs)"
  for h :: "'a \<Rightarrow> 'b::comm_monoid_add"
  by (induction xs) (simp_all add: sum_list_insort_key)

lemma sum_value_counts: "sum_list (map snd (value_counts col)) = length (dropna col)"
  by (simp add: value_counts_def sum_list_sort_key sum_fold_count_option)

lemma sum_percentages:
  "sum_list (map snd (map (\<lambda>(k, n). (g k, real n / m * 100)) kns))
     = real (sum_list (map snd kns)) / m * 100"
  by (induction kns) (auto simp: add_divide_distrib distrib_right)

text \<open>The percentages of \<open>distribution_sc\<close> add up to 100.\<close>

lemma distribution_sc_sum:
  assumes "distribution_sc data qid = Inr res"
    and "dropna (df_col (raw_data data) qid) \<noteq> []"
  shows "sum_list (map snd (distribution res)) = 100"
proof -
  let ?col = "df_col (raw_data data) qid"
  have "sum_list (map snd (distribution res))
        = real (sum_list (map snd (value_counts ?col))) / real (length (dropna ?col)) * 100"
    using sum_percentages [of "\<lambda>k. k" "real (length (dropna ?col))" "value_counts ?col"]
    by (simp add: distribution_sc_entries [OF assms(1)])
  with assms(2) show ?thesis
    by (simp add: sum_value_counts)
qed

text \<open>So do those of \<open>get_distribution\<close> for a question not typed \<open>MC\<close>, when no two values
  of the column have the same string.\<close>

lemma value_counts_keys: "fst ` set (value_counts col) = set (dropna col)"
proof (intro equalityI subsetI)
  fix x
  assume "x \<in> fst ` set (value_counts col)"
  then obtain n where "(x, n) \<in> set (value_counts col)" by force
  then show "x \<in> set (dropna col)" by (simp add: value_counts_entry)
next
  fix x
  assume "x \<in> set (dropna col)"
  then have "(x, count_list (dropna col) x) \<in> set (value_counts col)"
    by (simp add: value_counts_entry)
  then show "x \<in> fst ` set (value_counts col)" by force
qed

lemma get_distribution_sum:
  assumes "map_of (question_types sa) question \<noteq> Some MC"
    and "get_distribution sa question subset_df = Inr distr"
    and "dropna (df_col (frame_of sa subset_df) question) \<noteq> []"
    and "inj_on py_str (set (dropna (df_col (frame_of sa subset_df) question)))"
  shows "sum_list (map snd distr) = 100"
proof -
  let ?col = "df_col (frame_of sa subset_df) question"
  let ?total = "length (filter notna ?col)"
  let ?items = "map (\<lambda>(val, count). (py_str val, real count / real ?total * 100)) (value_counts ?col)"
  from assms(3) have total: "?total \<noteq> 0" by (simp add: dropna_def)
  with assms(1,2) have distr: "distr = dict_of_items (sorted_desc (dict_of_items ?items))"
    by (auto simp: get_distribution_def Let_def split: if_splits)
  have keys: "map fst ?items = map py_str (map fst (value_counts ?col))"
    by (induction "value_counts ?col") (auto simp: case_prod_unfold)
  have "distinct (map py_str (map fst (value_counts ?col)))"
  proof -
    have "inj_on py_str (set (map fst (value_counts ?col)))"
      using assms(4) by (simp only: set_map value_counts_keys)
    with value_counts_distinct [of ?col] show ?thesis
      by (simp only: distinct_map [of py_str "map fst (value_counts ?col)"] simp_thms)
  qed
  then have "distinct (map fst ?items)" unfolding keys .
  then have same: "dict_of_items ?items = ?items" by (rule dict_of_items_distinct)
  have "dict_of_items (sorted_desc (dict_of_items ?items)) = sorted_desc (dict_of_items ?items)"
    by (rule dict_of_sorted_dict)
  with distr have "distr = sorted_desc ?items"
    by (simp only: same)
  then have "sum_list (map snd distr) = sum_list (map snd ?items)"
    by (simp only: sorted_desc_def sum_list_sort_key)
  also have "\<dots> = real (sum_list (map snd (value_counts ?col))) / real ?total * 100"
    by (rule sum_percentages)
  also have "\<dots> = 100"
    using total by (simp add: sum_value_counts dropna_def)
  finally show ?thesis .
qed

text \<open>
  Claim C6 says that the percentages of a single-choice question with a non-null response
  add up to 100. \<open>get_distribution\<close> keys its dictionary by \<open>str(val)\<close>: in a column that
  holds the text \<open>1\<close> and the number 1, \<open>value_counts\<close> has two values of count 1 with the
  same string, the second assignment replaces the first, and the one entry left has 50
  percent.
\<close>

theorem str_collision_sum:
  "map_of (question_types (new_analyzer \<lparr> columns = [''Level''],
              rows = [[(''Level'', Str ''1'')], [(''Level'', Num 1)]] \<rparr>)) ''Level'' = Some SC
   \<and> get_distribution (new_analyzer \<lparr> columns = [''Level''],
              rows = [[(''Level'', Str ''1'')], [(''Level'', Num 1)]] \<rparr>) ''Level'' None
       = Inr [(''1'', 50)]
   \<and> sum_list (map snd [(''1'', 50 :: real)]) = 50"
  by code_simp

end
